theory Spec2Isabelle
  imports Complex_Main "HOL-Library.Word"
begin

section \<open>Terminal tanks: terrain generator, projectile simulator, game state\<close>

text \<open>
  A shallow embedding of \<^verbatim>\<open>main.go\<close>. Conventions:
  \<^item> in \<open>simulate\<close> and \<open>generateTerrain\<close> a Go \<^verbatim>\<open>float64\<close> is modelled by the real number it
    stands for, without the rounding error of IEEE arithmetic; \<open>simulateWith\<close> is \<open>simulate\<close>
    with the arithmetic left open, and \<open>addStep64\<close> is the \<^verbatim>\<open>float64\<close> addition of the time step,
    rounded as the machine rounds it. \<^verbatim>\<open>int(x)\<close> on a float truncates towards zero
    (\<open>goTrunc\<close>), \<^verbatim>\<open>math.Round\<close> rounds half away from zero (\<open>goRound\<close>);
  \<^item> a Go \<^verbatim>\<open>int\<close> is an \<open>int\<close>, except in the shift \<^verbatim>\<open>1 << (iterations - z)\<close>, which is
    computed on 64 bits as the machine does;
  \<^item> an index out of range and a negative \<^verbatim>\<open>make\<close> length panic: \<open>Inl Panic\<close>;
  \<^item> \<open>generateTerrain\<close> leaves memory out, as the game only calls it for 100 columns and 6
    octaves (slices of at most 128 values); \<open>generateTerrainIn mem\<close> is the same function in
    a run that can allocate a slice exactly when it has at most \<open>mem\<close> values, a longer one
    being \<open>Inl OutOfMemory\<close>;
  \<^item> the global random source is a function \<open>rnd\<close> giving the result of the \<open>i\<close>-th call of
    \<^verbatim>\<open>rand.Intn\<close> made by the operation, in the order the source makes the calls;
  \<^item> a loop that need not terminate is a \<^theory_text>\<open>partial_function\<close> in the option monad:
    \<open>None\<close> is "does not return".
\<close>

subsection \<open>Numeric conversions\<close>

definition goTrunc :: "real \<Rightarrow> int" where
  "goTrunc x = (if 0 \<le> x then \<lfloor>x\<rfloor> else \<lceil>x\<rceil>)"

definition goRound :: "real \<Rightarrow> int" where
  "goRound x = (if 0 \<le> x then \<lfloor>x + 1 / 2\<rfloor> else \<lceil>x - 1 / 2\<rceil>)"

definition gravity :: real where
  "gravity = 981 / 100"

datatype error = Panic | NaNToInt | OutOfMemory

subsection \<open>generateTerrain\<close>

definition cosineInterpolation :: "real \<Rightarrow> real \<Rightarrow> real \<Rightarrow> real" where
  "cosineInterpolation a b mu =
     (let mu2 = (1 - cos (mu * pi)) / 2 in a * (1 - mu2) + b * mu2)"

text \<open>Step 1, the only place where randomness enters: \<^verbatim>\<open>float64(rand.Intn(10) + 5)\<close>.\<close>

definition naiveTerrain :: "int \<Rightarrow> (nat \<Rightarrow> int) \<Rightarrow> real list" where
  "naiveTerrain width rnd = map (\<lambda>i. real_of_int (rnd i + 5)) [0..<nat width]"

text \<open>\<^verbatim>\<open>for i := 0; i < len(naiveTerrain); i += sample { append(samplePoints, naiveTerrain[i]) }\<close>\<close>

partial_function (option) samplePointsLoop ::
  "real list \<Rightarrow> int \<Rightarrow> int \<Rightarrow> real list \<Rightarrow> (error + real list) option" where
  "samplePointsLoop naive sample i acc =
     (if i < int (length naive) then
        (if i < 0 then Some (Inl Panic)
         else samplePointsLoop naive sample (i + sample) (acc @ [naive ! nat i]))
      else Some (Inr acc))"

text \<open>One pass of the loop over \<open>i\<close> in an octave: the control point, then the
  \<open>sample - 1\<close> interpolated values towards the next control point (cyclically).\<close>

definition segment :: "real \<Rightarrow> int \<Rightarrow> real list \<Rightarrow> nat \<Rightarrow> real list" where
  "segment weight sample samplePoints i =
     weight * samplePoints ! i #
     map (\<lambda>j. weight * cosineInterpolation (samplePoints ! i)
                 (samplePoints ! ((i + 1) mod length samplePoints))
                 (real_of_int j / real_of_int sample))
         [1..sample - 1]"

definition octaveTerrain :: "real \<Rightarrow> int \<Rightarrow> real list \<Rightarrow> real list" where
  "octaveTerrain weight sample samplePoints =
     concat (map (segment weight sample samplePoints) [0..<length samplePoints])"

text \<open>\<^verbatim>\<open>1 << k\<close> on a 64-bit \<^verbatim>\<open>int\<close>.\<close>

definition shl1 :: "nat \<Rightarrow> int" where
  "shl1 k = sint (push_bit k (1 :: 64 word))"

text \<open>\<^verbatim>\<open>for z := iterations; z > 0; z--\<close>, the counter being \<open>z = Suc k\<close>; the state is
  \<open>(terrains, weightSum)\<close>.\<close>

fun octavesLoop ::
  "real list \<Rightarrow> int \<Rightarrow> nat \<Rightarrow> real list list \<times> real \<Rightarrow> (error + real list list \<times> real) option" where
  "octavesLoop naive iterations 0 st = Some (Inr st)"
| "octavesLoop naive iterations (Suc k) (terrains, weightSum) =
     (let weight = 1 / 2 ^ k;
          sample = shl1 (nat (iterations - int (Suc k)))
      in case samplePointsLoop naive sample 0 [] of
           None \<Rightarrow> None
         | Some (Inl e) \<Rightarrow> Some (Inl e)
         | Some (Inr samplePoints) \<Rightarrow>
             octavesLoop naive iterations k
               (terrains @ [octaveTerrain weight sample samplePoints], weightSum + weight))"

text \<open>\<^verbatim>\<open>finalTerrain[i]\<close>: the sum of the octaves defined at \<open>i\<close>, divided by \<open>weightSum\<close>.\<close>

definition finalHeight :: "real list list \<Rightarrow> real \<Rightarrow> nat \<Rightarrow> real" where
  "finalHeight terrains weightSum i =
     foldl (\<lambda>s t. if i < length t then s + t ! i else s) 0 terrains / weightSum"

text \<open>With no octave at all (\<open>iterations \<le> 0\<close>) the quotient is \<^verbatim>\<open>0/0 = NaN\<close>, whose
  conversion to \<^verbatim>\<open>int\<close> Go leaves to the implementation: \<open>Inl NaNToInt\<close>.\<close>

definition generateTerrain :: "int \<Rightarrow> int \<Rightarrow> (nat \<Rightarrow> int) \<Rightarrow> (error + int list) option" where
  "generateTerrain width iterations rnd =
     (if width < 0 then Some (Inl Panic)
      else
        let naive = naiveTerrain width rnd
        in case octavesLoop naive iterations (nat iterations) ([], 0) of
             None \<Rightarrow> None
           | Some (Inl e) \<Rightarrow> Some (Inl e)
           | Some (Inr (terrains, weightSum)) \<Rightarrow>
               if weightSum = 0 \<and> naive \<noteq> [] then Some (Inl NaNToInt)
               else Some (Inr (map (\<lambda>i. goRound (finalHeight terrains weightSum i))
                                   [0..<length naive])))"



subsection \<open>The game state\<close>

record model =
  terrain :: "int list"
  tankPos :: int
  targetPos :: int
  ballPosX :: int
  ballPosY :: int
  angle :: real
  power_m :: real
  simulating :: bool
  hit :: bool
  timePassed :: real

datatype msg = KeyMsg string | TickMsg | ResetMsg | OtherMsg

text \<open>A command is nothing, quit, or a timer: a delay in milliseconds and the message
  delivered when it fires.\<close>

datatype cmd = CmdNil | CmdQuit | CmdAfter nat msg

definition tick :: cmd where
  "tick = CmdAfter 100 TickMsg"

definition reset :: cmd where
  "reset = CmdAfter 2000 ResetMsg"

text \<open>\<^verbatim>\<open>xs[i]\<close> on a slice.\<close>

definition index :: "int list \<Rightarrow> int \<Rightarrow> error + int" where
  "index xs i = (if 0 \<le> i \<and> i < int (length xs) then Inr (xs ! nat i) else Inl Panic)"

subsection \<open>simulate\<close>

text \<open>The position at elapsed time \<open>t\<close>, computed from the launch point.\<close>

definition angleRad :: "model \<Rightarrow> real" where
  "angleRad m = angle m * pi / 180"

definition newXPos :: "model \<Rightarrow> real \<Rightarrow> real" where
  "newXPos m t = real_of_int (tankPos m) + power_m m * cos (angleRad m) * t"

definition newYPos :: "model \<Rightarrow> int \<Rightarrow> real \<Rightarrow> real" where
  "newYPos m h t = real_of_int h + power_m m * sin (angleRad m) * t - 1 / 2 * gravity * t * t"

definition simulate :: "model \<Rightarrow> error + model \<times> cmd" where
  "simulate m =
     (if \<not> simulating m then Inr (m, CmdNil)
      else
        case index (terrain m) (tankPos m) of
          Inl e \<Rightarrow> Inl e
        | Inr h \<Rightarrow>
            let t = timePassed m + 1 / 10;
                m1 = m\<lparr>timePassed := t\<rparr>;
                x = newXPos m t;
                y = newYPos m h t
            in if goTrunc x \<ge> int (length (terrain m)) \<or> goTrunc x < 0 \<or>
                  y \<le> real_of_int (terrain m ! nat (goTrunc x))
               then Inr (m1\<lparr>simulating := False\<rparr>, reset)
               else
                 let m2 = m1\<lparr>ballPosX := goRound x, ballPosY := goRound y\<rparr>
                 in if goTrunc \<bar>real_of_int (targetPos m2 - ballPosX m2)\<bar> \<le> 3
                    then (case index (terrain m2) (targetPos m2) of
                            Inl e \<Rightarrow> Inl e
                          | Inr ht \<Rightarrow>
                              if ballPosY m2 \<ge> ht - 2 \<and> ballPosY m2 \<le> ht + 2
                              then Inr (m2\<lparr>hit := True, simulating := False\<rparr>, CmdNil)
                              else Inr (m2, tick))
                    else Inr (m2, tick))"

text \<open>The same function with the arithmetic left open: \<open>xAt\<close> and \<open>yAt\<close> are the position as the
  machine computes it, \<open>addStep\<close> is \<^verbatim>\<open>m.timePassed += 0.1\<close>. With \<open>newXPos\<close>, \<open>newYPos\<close> and
  the real sum it is \<open>simulate\<close>.\<close>

definition simulateWith ::
  "(model \<Rightarrow> real \<Rightarrow> real) \<Rightarrow> (model \<Rightarrow> int \<Rightarrow> real \<Rightarrow> real) \<Rightarrow> (real \<Rightarrow> real) \<Rightarrow>
   model \<Rightarrow> error + model \<times> cmd" where
  "simulateWith xAt yAt addStep m =
     (if \<not> simulating m then Inr (m, CmdNil)
      else
        case index (terrain m) (tankPos m) of
          Inl e \<Rightarrow> Inl e
        | Inr h \<Rightarrow>
            let t = addStep (timePassed m);
                m1 = m\<lparr>timePassed := t\<rparr>;
                x = xAt m t;
                y = yAt m h t
            in if goTrunc x \<ge> int (length (terrain m)) \<or> goTrunc x < 0 \<or>
                  y \<le> real_of_int (terrain m ! nat (goTrunc x))
               then Inr (m1\<lparr>simulating := False\<rparr>, reset)
               else
                 let m2 = m1\<lparr>ballPosX := goRound x, ballPosY := goRound y\<rparr>
                 in if goTrunc \<bar>real_of_int (targetPos m2 - ballPosX m2)\<bar> \<le> 3
                    then (case index (terrain m2) (targetPos m2) of
                            Inl e \<Rightarrow> Inl e
                          | Inr ht \<Rightarrow>
                              if ballPosY m2 \<ge> ht - 2 \<and> ballPosY m2 \<le> ht + 2
                              then Inr (m2\<lparr>hit := True, simulating := False\<rparr>, CmdNil)
                              else Inr (m2, tick))
                    else Inr (m2, tick))"

text \<open>\<^verbatim>\<open>float64\<close> rounding of a real in the normal range: to the nearest number with a 53-bit
  significand, a tie going to the even significand. \<open>step64\<close> is the constant \<^verbatim>\<open>0.1\<close> as the
  program holds it, \<open>addStep64\<close> the sum \<^verbatim>\<open>m.timePassed + 0.1\<close> as the machine rounds it.\<close>

definition roundEven :: "real \<Rightarrow> int" where
  "roundEven y =
     (let f = \<lfloor>y\<rfloor>
      in if y - real_of_int f < 1 / 2 then f
         else if 1 / 2 < y - real_of_int f then f + 1
         else if even f then f else f + 1)"

definition roundFloat64 :: "real \<Rightarrow> real" where
  "roundFloat64 x =
     (if x = 0 then 0
      else let e = \<lfloor>log 2 \<bar>x\<bar>\<rfloor>;
               u = 2 powr real_of_int (e - 52)
           in sgn x * real_of_int (roundEven (\<bar>x\<bar> / u)) * u)"

definition step64 :: real where
  "step64 = roundFloat64 (1 / 10)"

definition addStep64 :: "real \<Rightarrow> real" where
  "addStep64 t = roundFloat64 (t + step64)"

subsection \<open>resetGame, main and Update\<close>

text \<open>The calls of \<^verbatim>\<open>rand.Intn\<close> in source order: 100 for the terrain, then the tank, the
  target, the ball's column, and the column whose height becomes the ball's row. The field
  \<^verbatim>\<open>timePassed\<close> is not set: it has Go's zero value.\<close>

definition resetGame :: "model \<Rightarrow> (nat \<Rightarrow> int) \<Rightarrow> (error + model) option" where
  "resetGame m rnd =
     (case generateTerrain 100 6 rnd of
        None \<Rightarrow> None
      | Some (Inl e) \<Rightarrow> Some (Inl e)
      | Some (Inr newTerrain) \<Rightarrow>
          (case index (terrain m) (rnd 103 + 1) of
             Inl e \<Rightarrow> Some (Inl e)
           | Inr y \<Rightarrow>
               Some (Inr \<lparr>terrain = newTerrain, tankPos = rnd 100 + 1, targetPos = rnd 101 + 75,
                          ballPosX = rnd 102 + 1, ballPosY = y, angle = 45, power_m = 20,
                          simulating = False, hit = False, timePassed = 0\<rparr>)))"

text \<open>The model \<^verbatim>\<open>main\<close> starts the program with.\<close>

definition initialModel :: "(nat \<Rightarrow> int) \<Rightarrow> (error + model) option" where
  "initialModel rnd =
     (case generateTerrain 100 6 rnd of
        None \<Rightarrow> None
      | Some (Inl e) \<Rightarrow> Some (Inl e)
      | Some (Inr terrain0) \<Rightarrow>
          (let tankPos0 = rnd 100 + 1; targetPos0 = rnd 101 + 75
           in case index terrain0 tankPos0 of
                Inl e \<Rightarrow> Some (Inl e)
              | Inr y \<Rightarrow>
                  Some (Inr \<lparr>terrain = terrain0, tankPos = tankPos0, targetPos = targetPos0,
                             ballPosX = tankPos0, ballPosY = y, angle = 45, power_m = 20,
                             simulating = False, hit = False, timePassed = 0\<rparr>)))"

definition Update :: "model \<Rightarrow> msg \<Rightarrow> (nat \<Rightarrow> int) \<Rightarrow> (error + model \<times> cmd) option" where
  "Update m msg0 rnd =
     (case msg0 of
        KeyMsg k \<Rightarrow>
          if k = ''q'' then Some (Inr (m, CmdQuit))
          else if \<not> simulating m then
            (if k = ''a'' then Some (Inr (m\<lparr>angle := angle m - 5\<rparr>, CmdNil))
             else if k = ''d'' then Some (Inr (m\<lparr>angle := angle m + 5\<rparr>, CmdNil))
             else if k = ''w'' then Some (Inr (m\<lparr>power_m := power_m m + 1\<rparr>, CmdNil))
             else if k = ''s'' then Some (Inr (m\<lparr>power_m := power_m m - 1\<rparr>, CmdNil))
             else if k = ''enter'' then Some (Inr (m\<lparr>simulating := True, timePassed := 0\<rparr>, tick))
             else Some (Inr (m, CmdNil)))
          else Some (Inr (m, CmdNil))
      | TickMsg \<Rightarrow> Some (simulate m)
      | ResetMsg \<Rightarrow>
          (case resetGame m rnd of
             None \<Rightarrow> None
           | Some (Inl e) \<Rightarrow> Some (Inl e)
           | Some (Inr m') \<Rightarrow> Some (Inr (m', CmdNil)))
      | OtherMsg \<Rightarrow> Some (Inr (m, CmdNil)))"

text \<open>What \<^verbatim>\<open>rand.Intn(10)\<close> and \<^verbatim>\<open>rand.Intn(5)\<close> can return, for the 104 calls of a start or a
  reset.\<close>

definition validRnd :: "(nat \<Rightarrow> int) \<Rightarrow> bool" where
  "validRnd rnd \<longleftrightarrow>
     (\<forall>i \<in> {0..<100}. 0 \<le> rnd i \<and> rnd i < 10) \<and> (\<forall>i \<in> {100..<104}. 0 \<le> rnd i \<and> rnd i < 5)"

text \<open>The states the program can be in: the initial one, and what \<^verbatim>\<open>Update\<close> returns on any
  message from a state the program can be in.\<close>

inductive reachable :: "model \<Rightarrow> bool" where
  init: "validRnd rnd \<Longrightarrow> initialModel rnd = Some (Inr m) \<Longrightarrow> reachable m"
| step: "reachable m \<Longrightarrow> validRnd rnd \<Longrightarrow> Update m msg0 rnd = Some (Inr (m', c)) \<Longrightarrow> reachable m'"

subsection \<open>Auxiliary notions used in the statements\<close>

text \<open>The number of passes of the control-point loop started at \<open>i\<close>, and the control points
  a positive stride collects.\<close>

definition pointCount :: "nat \<Rightarrow> int \<Rightarrow> int \<Rightarrow> nat" where
  "pointCount len sample i = nat ((int len - i + sample - 1) div sample)"

definition controlPoints :: "real list \<Rightarrow> int \<Rightarrow> real list" where
  "controlPoints naive sample =
     map (\<lambda>k. naive ! nat (int k * sample)) [0..<pointCount (length naive) sample 0]"

definition nonnegAll :: "real list list \<Rightarrow> bool" where
  "nonnegAll ts \<longleftrightarrow> (\<forall>t \<in> set ts. \<forall>v \<in> set t. 0 \<le> v)"

text \<open>The tank and the target stand on the terrain.\<close>

definition inBounds :: "model \<Rightarrow> bool" where
  "inBounds m \<longleftrightarrow> 0 \<le> tankPos m \<and> tankPos m < int (length (terrain m)) \<and>
      0 \<le> targetPos m \<and> targetPos m < int (length (terrain m))"

text \<open>The shape of every state of the program: 100 columns, the tank on columns 1 to 5, the
  target on columns 75 to 79.\<close>

definition onField :: "model \<Rightarrow> bool" where
  "onField m \<longleftrightarrow> length (terrain m) = 100 \<and> 1 \<le> tankPos m \<and> tankPos m \<le> 5 \<and>
     75 \<le> targetPos m \<and> targetPos m \<le> 79"

text \<open>The specification's single-octave scenario: the base sequence, each value rounded to the
  nearest integer.\<close>

definition specSingleOctaveProfile :: "real list \<Rightarrow> int list" where
  "specSingleOctaveProfile base = map round base"

text \<open>The six octaves of \<^verbatim>\<open>generateTerrain(100, 6)\<close>, in the order the loop appends them.\<close>

definition sixOctaves :: "real list \<Rightarrow> real list list" where
  "sixOctaves naive =
     [octaveTerrain (1 / 32) 1 (controlPoints naive 1),
      octaveTerrain (1 / 16) 2 (controlPoints naive 2),
      octaveTerrain (1 / 8) 4 (controlPoints naive 4),
      octaveTerrain (1 / 4) 8 (controlPoints naive 8),
      octaveTerrain (1 / 2) 16 (controlPoints naive 16),
      octaveTerrain 1 32 (controlPoints naive 32)]"

text \<open>What a tick computes from a state: the position, whether it passes the bounds and
  ground test of \<^verbatim>\<open>simulate\<close>, and whether the rounded position is in the target's band.\<close>

definition tickX :: "model \<Rightarrow> real" where
  "tickX m = newXPos m (timePassed m + 1 / 10)"

definition tickY :: "model \<Rightarrow> real" where
  "tickY m = newYPos m (terrain m ! nat (tankPos m)) (timePassed m + 1 / 10)"

definition clearsGround :: "model \<Rightarrow> bool" where
  "clearsGround m \<longleftrightarrow> 0 \<le> goTrunc (tickX m) \<and> goTrunc (tickX m) < int (length (terrain m)) \<and>
     real_of_int (terrain m ! nat (goTrunc (tickX m))) < tickY m"

definition inHitBand :: "model \<Rightarrow> bool" where
  "inHitBand m \<longleftrightarrow> \<bar>targetPos m - goRound (tickX m)\<bar> \<le> 3 \<and>
     \<bar>goRound (tickY m) - terrain m ! nat (targetPos m)\<bar> \<le> 2"

text \<open>The event loop: a list of messages delivered in order, and \<open>n\<close> timer ticks one after
  the other.\<close>

fun run :: "model \<Rightarrow> msg list \<Rightarrow> (nat \<Rightarrow> int) \<Rightarrow> (error + model) option" where
  "run m [] rnd = Some (Inr m)"
| "run m (x # xs) rnd =
     (case Update m x rnd of
        None \<Rightarrow> None
      | Some (Inl e) \<Rightarrow> Some (Inl e)
      | Some (Inr (m', c)) \<Rightarrow> run m' xs rnd)"

fun ticksWith ::
  "(model \<Rightarrow> real \<Rightarrow> real) \<Rightarrow> (model \<Rightarrow> int \<Rightarrow> real \<Rightarrow> real) \<Rightarrow> (real \<Rightarrow> real) \<Rightarrow>
   nat \<Rightarrow> model \<Rightarrow> error + model" where
  "ticksWith xAt yAt addStep 0 m = Inr m"
| "ticksWith xAt yAt addStep (Suc n) m =
     (case ticksWith xAt yAt addStep n m of
        Inl e \<Rightarrow> Inl e
      | Inr m' \<Rightarrow> map_sum id fst (simulateWith xAt yAt addStep m'))"

subsection \<open>A game in which the target is hit\<close>

text \<open>The draws: base heights 6 on columns 0 to 63 and 5 from column 64 on, the tank on
  column 1, the target on column 75. The player lowers the angle to 0, raises the power to
  740, fires, the first tick hits, and the player fires again.\<close>

definition c1_rnd :: "nat \<Rightarrow> int" where
  "c1_rnd i = (if i < 64 then 1 else 0)"

definition c1_terrain :: "int list" where
  "c1_terrain = map (\<lambda>i. goRound (finalHeight (sixOctaves (naiveTerrain 100 c1_rnd)) (63 / 32) i)) [0..<100]"

definition c1_init :: model where
  "c1_init = \<lparr>terrain = c1_terrain, tankPos = 1, targetPos = 75, ballPosX = 1, ballPosY = 6,
     angle = 45, power_m = 20, simulating = False, hit = False, timePassed = 0\<rparr>"

definition c1_aimed :: model where
  "c1_aimed = \<lparr>terrain = c1_terrain, tankPos = 1, targetPos = 75, ballPosX = 1, ballPosY = 6,
     angle = 0, power_m = 740, simulating = False, hit = False, timePassed = 0\<rparr>"

definition c1_flying :: model where
  "c1_flying = c1_aimed\<lparr>simulating := True, timePassed := 0\<rparr>"

definition c1_msgs :: "msg list" where
  "c1_msgs = replicate 9 (KeyMsg ''a'') @ replicate 720 (KeyMsg ''w'') @
     [KeyMsg ''enter'', TickMsg, KeyMsg ''enter'']"

definition c1_state :: model where
  "c1_state = \<lparr>terrain = c1_terrain, tankPos = 1, targetPos = 75, ballPosX = 75, ballPosY = 6,
     angle = 0, power_m = 740, simulating = True, hit = True, timePassed = 0\<rparr>"

text \<open>On the same terrain, a shot fired straight up: the player raises the angle to 90 and
  fires; \<open>c7_tick2\<close> and \<open>c7_tick3\<close> are the states after the second and the third tick.\<close>

definition c7_msgs :: "msg list" where
  "c7_msgs = replicate 9 (KeyMsg ''d'') @ [KeyMsg ''enter'']"

definition c7_flying :: model where
  "c7_flying = \<lparr>terrain = c1_terrain, tankPos = 1, targetPos = 75, ballPosX = 1, ballPosY = 6,
     angle = 90, power_m = 20, simulating = True, hit = False, timePassed = 0\<rparr>"

definition c7_tick2 :: model where
  "c7_tick2 = c7_flying\<lparr>timePassed := 7205759403792794 / 2 ^ 55, ballPosX := 1, ballPosY := 10\<rparr>"

definition c7_tick3 :: model where
  "c7_tick3 = c7_flying\<lparr>timePassed := 5404319552844596 / 2 ^ 54, ballPosX := 1, ballPosY := 12\<rparr>"

subsection \<open>Two more games\<close>

text \<open>Base heights 5 on column 0 and 14 elsewhere, the tank on column 5: the player turns the
  angle to 180, raises the power to 57 and fires.\<close>

definition c2_rnd :: "nat \<Rightarrow> int" where
  "c2_rnd i = (if i = 0 then 0 else if i < 100 then 9 else if i = 100 then 4 else 0)"

definition c2_terrain :: "int list" where
  "c2_terrain = map (\<lambda>i. goRound (finalHeight (sixOctaves (naiveTerrain 100 c2_rnd)) (63 / 32) i)) [0..<100]"

definition c2_init :: model where
  "c2_init = \<lparr>terrain = c2_terrain, tankPos = 5, targetPos = 75, ballPosX = 5, ballPosY = c2_terrain ! 5,
     angle = 45, power_m = 20, simulating = False, hit = False, timePassed = 0\<rparr>"

definition c2_msgs :: "msg list" where
  "c2_msgs = replicate 27 (KeyMsg ''d'') @ replicate 37 (KeyMsg ''w'') @ [KeyMsg ''enter'']"

definition c2_flying :: model where
  "c2_flying = \<lparr>terrain = c2_terrain, tankPos = 5, targetPos = 75, ballPosX = 5, ballPosY = c2_terrain ! 5,
     angle = 180, power_m = 57, simulating = True, hit = False, timePassed = 0\<rparr>"

text \<open>Base heights 6 on columns 0 to 63, 14 on columns 75 and 76 and 5 on the other columns
  from 64 on, the tank on column 1, the target on column 75: the player lowers the angle to 0,
  raises the power to 736 and fires.\<close>

definition c3_rnd :: "nat \<Rightarrow> int" where
  "c3_rnd i = (if i < 64 then 1 else if i = 75 \<or> i = 76 then 9 else 0)"

definition c3_terrain :: "int list" where
  "c3_terrain = map (\<lambda>i. goRound (finalHeight (sixOctaves (naiveTerrain 100 c3_rnd)) (63 / 32) i)) [0..<100]"

definition c3_init :: model where
  "c3_init = \<lparr>terrain = c3_terrain, tankPos = 1, targetPos = 75, ballPosX = 1, ballPosY = 6,
     angle = 45, power_m = 20, simulating = False, hit = False, timePassed = 0\<rparr>"

definition c3_msgs :: "msg list" where
  "c3_msgs = replicate 9 (KeyMsg ''a'') @ replicate 716 (KeyMsg ''w'') @ [KeyMsg ''enter'']"

definition c3_flying :: model where
  "c3_flying = \<lparr>terrain = c3_terrain, tankPos = 1, targetPos = 75, ballPosX = 1, ballPosY = 6,
     angle = 0, power_m = 736, simulating = True, hit = False, timePassed = 0\<rparr>"

subsection \<open>Example states\<close>

text \<open>A terrain of 100 columns of height \<open>b\<close>, except column \<open>col\<close> of height \<open>h\<close>; and a
  shot in flight before its first tick, fired flat (angle 0) from column 1 at the target on
  column 75.\<close>

definition flatWith :: "int \<Rightarrow> nat \<Rightarrow> int \<Rightarrow> int list" where
  "flatWith b col h = replicate col b @ [h] @ replicate (99 - col) b"

definition shot :: "int list \<Rightarrow> real \<Rightarrow> model" where
  "shot ter pw = \<lparr>terrain = ter, tankPos = 1, targetPos = 75, ballPosX = 1, ballPosY = ter ! 1,
     angle = 0, power_m = pw, simulating = True, hit = False, timePassed = 0\<rparr>"

section \<open>The control-point loop\<close>

lemma pointCount_done: "0 < sample \<Longrightarrow> int len \<le> i \<Longrightarrow> pointCount len sample i = 0"
  unfolding pointCount_def
  by (smt (verit, best) div_neg_pos_less0 nat_le_0 div_pos_pos_trivial)

lemma pointCount_step:
  assumes "0 < sample" "i < int len"
  shows "pointCount len sample i = Suc (pointCount len sample (i + sample))"
proof -
  have "int len - i + sample - 1 = (int len - (i + sample) + sample - 1) + sample"
    by simp
  then have "(int len - i + sample - 1) div sample = (int len - (i + sample) + sample - 1) div sample + 1"
    using assms(1) by (metis div_add_self2 less_numeral_extra(3))
  moreover have "0 \<le> (int len - (i + sample) + sample - 1) div sample"
    using assms by (simp add: pos_imp_zdiv_nonneg_iff)
  ultimately show ?thesis
    unfolding pointCount_def by simp
qed

lemma samplePointsLoop_pos:
  assumes "0 < sample" "0 \<le> i"
  shows "samplePointsLoop naive sample i acc =
     Some (Inr (acc @ map (\<lambda>k. naive ! nat (i + int k * sample)) [0..<pointCount (length naive) sample i]))"
  using assms(2)
proof (induction "nat (int (length naive) - i)" arbitrary: i acc rule: less_induct)
  case less
  show ?case
  proof (cases "i < int (length naive)")
    case False
    then show ?thesis
      using assms(1) by (subst samplePointsLoop.simps) (simp add: pointCount_done)
  next
    case True
    have "samplePointsLoop naive sample i acc =
            samplePointsLoop naive sample (i + sample) (acc @ [naive ! nat i])"
      using True less.prems by (subst samplePointsLoop.simps) simp
    also have "\<dots> = Some (Inr ((acc @ [naive ! nat i]) @
        map (\<lambda>k. naive ! nat (i + sample + int k * sample)) [0..<pointCount (length naive) sample (i + sample)]))"
      using True less.prems assms(1) by (intro less.hyps) auto
    finally show ?thesis
      unfolding pointCount_step [OF assms(1) True] map_upt_Suc
      by (simp add: algebra_simps)
  qed
qed

lemma samplePointsLoop_0:
  "0 < sample \<Longrightarrow> samplePointsLoop naive sample 0 [] = Some (Inr (controlPoints naive sample))"
  using samplePointsLoop_pos [of sample 0 naive "[]"] by (simp add: controlPoints_def)

lemma pointCount_index:
  assumes "0 < sample" "k < pointCount len sample 0"
  shows "int k * sample < int len"
proof -
  have "int k + 1 \<le> (int len + sample - 1) div sample"
    using assms(2) unfolding pointCount_def by simp
  then have "(int k + 1) * sample \<le> (int len + sample - 1) div sample * sample"
    using assms(1) by (intro mult_right_mono) simp_all
  also have "\<dots> = (int len + sample - 1) - (int len + sample - 1) mod sample"
    by (simp add: algebra_simps minus_mod_eq_mult_div)
  also have "\<dots> \<le> int len + sample - 1"
    using pos_mod_sign [OF assms(1), of "int len + sample - 1"] by linarith
  finally show ?thesis by (simp add: algebra_simps)
qed

lemma pointCount_cover:
  assumes "0 < sample"
  shows "int len \<le> int (pointCount len sample 0) * sample"
proof -
  have "0 \<le> (int len + sample - 1) div sample"
    using assms by (simp add: pos_imp_zdiv_nonneg_iff)
  then have "int (pointCount len sample 0) * sample = (int len + sample - 1) div sample * sample"
    unfolding pointCount_def by simp
  also have "\<dots> = (int len + sample - 1) - (int len + sample - 1) mod sample"
    by (simp add: algebra_simps minus_mod_eq_mult_div)
  also have "\<dots> \<ge> (int len + sample - 1) - (sample - 1)"
    using pos_mod_bound [OF assms, of "int len + sample - 1"] by linarith
  finally show ?thesis by simp
qed

lemma length_controlPoints: "length (controlPoints naive sample) = pointCount (length naive) sample 0"
  by (simp add: controlPoints_def)

lemma controlPoints_nth:
  "k < pointCount (length naive) sample 0 \<Longrightarrow> controlPoints naive sample ! k = naive ! nat (int k * sample)"
  by (simp add: controlPoints_def)

lemma set_controlPoints:
  assumes "0 < sample" shows "set (controlPoints naive sample) \<subseteq> set naive"
proof
  fix v assume "v \<in> set (controlPoints naive sample)"
  then obtain k where k: "k < pointCount (length naive) sample 0" and v: "v = naive ! nat (int k * sample)"
    by (auto simp add: controlPoints_def)
  have "nat (int k * sample) < length naive"
    using pointCount_index [OF assms k] assms by (simp add: nat_less_iff)
  then show "v \<in> set naive" using v by simp
qed

section \<open>The stride\<close>

lemma shl1_small: 
  assumes "k < 63" shows "shl1 k = 2 ^ k"
proof -
  have "push_bit k (1 :: 64 word) = word_of_int (2 ^ k)"
    by (simp add: push_bit_eq_mult)
  then have "shl1 k = signed_take_bit 63 ((2::int) ^ k)"
    unfolding shl1_def by (simp only: sint_sbintrunc') simp
  moreover have "(2::int) ^ k < 2 ^ 63"
    using assms by (intro power_strict_increasing) simp_all
  moreover have "- (2 ^ 63) \<le> (2::int) ^ k"
    by (smt (verit) zero_less_power)
  ultimately show ?thesis
    by (simp add: signed_take_bit_int_eq_self)
qed

lemma shl1_0: "shl1 0 = 1"
  by (simp add: shl1_def)

section \<open>Octaves\<close>

lemma cos_mu2_bounds: "0 \<le> (1 - cos (x::real)) / 2" "(1 - cos x) / 2 \<le> 1"
  using cos_le_one [of x] cos_ge_minus_one [of x] by simp_all

lemma cosineInterpolation_nonneg:
  assumes "0 \<le> a" "0 \<le> b" shows "0 \<le> cosineInterpolation a b mu"
proof -
  have "0 \<le> a * (1 - (1 - cos (mu * pi)) / 2)"
    using assms(1) cos_mu2_bounds(2) [of "mu * pi"] by (intro mult_nonneg_nonneg) simp_all
  moreover have "0 \<le> b * ((1 - cos (mu * pi)) / 2)"
    using assms(2) cos_mu2_bounds(1) [of "mu * pi"] by (intro mult_nonneg_nonneg) simp_all
  ultimately show ?thesis
    by (simp add: cosineInterpolation_def Let_def)
qed

lemma cosineInterpolation_same: "cosineInterpolation a a mu = a"
  by (simp add: cosineInterpolation_def Let_def algebra_simps)

lemma length_segment: "1 \<le> sample \<Longrightarrow> length (segment weight sample sp i) = nat sample"
  by (simp add: segment_def)

lemma length_concat_const:
  "(\<And>i. i < n \<Longrightarrow> length (f i) = s) \<Longrightarrow> length (concat (map f [0..<n])) = n * s"
  by (induction n) simp_all

lemma nth_concat_const:
  assumes "\<And>i. i < n \<Longrightarrow> length (f i) = s" "p < n * s"
  shows "concat (map f [0..<n]) ! p = f (p div s) ! (p mod s)"
  using assms
proof (induction n)
  case 0
  then show ?case by simp
next
  case (Suc n)
  have len: "length (concat (map f [0..<n])) = n * s"
    using Suc.prems(1) by (intro length_concat_const) simp
  have s: "0 < s" using Suc.prems(2) by (cases s) simp_all
  show ?case
  proof (cases "p < n * s")
    case True
    then show ?thesis using Suc len by (simp add: nth_append)
  next
    case False
    then have "p div s = n" using Suc.prems(2) s
      by (metis div_nat_eqI linorder_not_less mult.commute)
    moreover then have "p mod s = p - n * s"
      by (metis minus_mult_div_eq_mod mult.commute)
    ultimately show ?thesis using False len by (simp add: nth_append)
  qed
qed

lemma length_octaveTerrain:
  "1 \<le> sample \<Longrightarrow> length (octaveTerrain weight sample sp) = length sp * nat sample"
  unfolding octaveTerrain_def by (intro length_concat_const) (simp add: length_segment)

lemma octaveTerrain_nth:
  assumes "1 \<le> sample" "p < length sp * nat sample"
  shows "octaveTerrain weight sample sp ! p = segment weight sample sp (p div nat sample) ! (p mod nat sample)"
  unfolding octaveTerrain_def using assms by (intro nth_concat_const) (simp_all add: length_segment)

lemma segment_nonneg:
  assumes "0 \<le> weight" "\<forall>v \<in> set sp. 0 \<le> v" "i < length sp"
  shows "\<forall>v \<in> set (segment weight sample sp i). 0 \<le> v"
proof -
  have "0 \<le> sp ! i" using assms by simp
  moreover have "0 < length sp" using assms(3) by linarith
  then have "(i + 1) mod length sp < length sp" by (rule mod_less_divisor)
  then have "0 \<le> sp ! ((i + 1) mod length sp)" using assms(2) nth_mem by blast
  ultimately show ?thesis
    using assms(1) unfolding segment_def
    by (auto intro!: mult_nonneg_nonneg cosineInterpolation_nonneg simp del: add_Suc_right One_nat_def)
qed

lemma octaveTerrain_nonneg:
  assumes "0 \<le> weight" "\<forall>v \<in> set sp. 0 \<le> v"
  shows "\<forall>v \<in> set (octaveTerrain weight sample sp). 0 \<le> v"
  using segment_nonneg [OF assms] by (auto simp add: octaveTerrain_def)

lemma octavesLoop_ok:
  assumes "int k \<le> iterations" "iterations \<le> 63" "\<forall>v \<in> set naive. 0 \<le> v"
    and "nonnegAll terrains" "0 \<le> ws"
  shows "\<exists>ts' ws'. octavesLoop naive iterations k (terrains, ws) = Some (Inr (ts', ws')) \<and>
           nonnegAll ts' \<and> ws \<le> ws' \<and> (0 < k \<longrightarrow> ws < ws')"
  using assms
proof (induction k arbitrary: terrains ws)
  case 0
  then show ?case by simp
next
  case (Suc k)
  let ?n = "nat (iterations - int (Suc k))"
  let ?sample = "shl1 ?n"
  let ?w = "1 / 2 ^ k :: real"
  have n: "?n < 63" using Suc.prems(1,2) by simp
  have sample: "?sample = 2 ^ ?n" using n by (rule shl1_small)
  then have pos: "0 < ?sample" by simp
  let ?sp = "controlPoints naive ?sample"
  have loop: "samplePointsLoop naive ?sample 0 [] = Some (Inr ?sp)"
    using pos by (rule samplePointsLoop_0)
  have "\<forall>v \<in> set ?sp. 0 \<le> v"
    using set_controlPoints [OF pos, of naive] Suc.prems(3) by blast
  then have "\<forall>v \<in> set (octaveTerrain ?w ?sample ?sp). 0 \<le> v"
    by (intro octaveTerrain_nonneg) simp_all
  then have nn: "nonnegAll (terrains @ [octaveTerrain ?w ?sample ?sp])"
    using Suc.prems(4) by (simp add: nonnegAll_def)
  have w: "0 < ?w" by simp
  have "\<exists>ts' ws'. octavesLoop naive iterations k (terrains @ [octaveTerrain ?w ?sample ?sp], ws + ?w) = Some (Inr (ts', ws')) \<and>
           nonnegAll ts' \<and> ws + ?w \<le> ws' \<and> (0 < k \<longrightarrow> ws + ?w < ws')"
    using Suc.prems nn w by (intro Suc.IH) simp_all
  then obtain ts' ws' where r: "octavesLoop naive iterations k (terrains @ [octaveTerrain ?w ?sample ?sp], ws + ?w) = Some (Inr (ts', ws'))"
    and r2: "nonnegAll ts'" "ws + ?w \<le> ws'" by blast
  have "octavesLoop naive iterations (Suc k) (terrains, ws) = Some (Inr (ts', ws'))"
    using loop r by (simp add: Let_def)
  moreover have "ws < ws'" using r2(2) w by linarith
  ultimately show ?case using r2(1) by simp
qed


lemma foldl_nonneg:
  "nonnegAll ts \<Longrightarrow> 0 \<le> s \<Longrightarrow> 0 \<le> foldl (\<lambda>s t. if i < length t then s + t ! i else s) s ts"
  by (induction ts arbitrary: s) (simp_all add: nonnegAll_def)

lemma finalHeight_nonneg: "nonnegAll ts \<Longrightarrow> 0 \<le> ws \<Longrightarrow> 0 \<le> finalHeight ts ws i"
  unfolding finalHeight_def by (intro divide_nonneg_nonneg foldl_nonneg) simp_all

lemma goRound_nonneg: "0 \<le> x \<Longrightarrow> 0 \<le> goRound x"
  by (simp add: goRound_def)

lemma naiveTerrain_nonneg: "\<forall>i < nat width. - 5 \<le> rnd i \<Longrightarrow> \<forall>v \<in> set (naiveTerrain width rnd). 0 \<le> v"
  by (auto simp add: naiveTerrain_def)

lemma controlPoints_1: "controlPoints naive 1 = naive"
  by (simp add: controlPoints_def pointCount_def map_nth)

lemma concat_singletons: "concat (map (\<lambda>i. [f i]) xs) = map f xs"
  by (induction xs) simp_all

lemma octaveTerrain_1: "octaveTerrain 1 1 sp = sp"
proof -
  have "segment 1 1 sp = (\<lambda>i. [sp ! i])"
    by (rule ext) (simp add: segment_def)
  then show ?thesis
    by (simp add: octaveTerrain_def map_nth)
qed

lemma octavesLoop_single:
  "octavesLoop naive 1 (Suc 0) ([], 0) = Some (Inr ([naive], 1))"
  by (simp add: shl1_0 samplePointsLoop_0 controlPoints_1 octaveTerrain_1)

lemma goRound_of_int: "goRound (real_of_int n) = n"
proof (cases "0 \<le> n")
  case True
  have "\<lfloor>real_of_int n + 1 / 2\<rfloor> = n" by (rule floor_unique) simp_all
  then show ?thesis using True by (simp add: goRound_def)
next
  case False
  have "\<lceil>real_of_int n - 1 / 2\<rceil> = n" by (rule ceiling_unique) simp_all
  then show ?thesis using False by (simp add: goRound_def)
qed

lemma generateTerrain_single:
  assumes "0 \<le> width"
  shows "generateTerrain width 1 rnd = Some (Inr (map goRound (naiveTerrain width rnd)))"
proof -
  let ?naive = "naiveTerrain width rnd"
  have "map (\<lambda>i. goRound (finalHeight [?naive] 1 i)) [0..<length ?naive] = map (\<lambda>i. goRound (?naive ! i)) [0..<length ?naive]"
    by (simp add: finalHeight_def)
  also have "\<dots> = map goRound ?naive"
    by (simp add: map_nth flip: map_map [unfolded comp_def])
  finally have "map (\<lambda>i. goRound (finalHeight [?naive] 1 i)) [0..<length ?naive] = map goRound ?naive" .
  moreover have "nat 1 = Suc 0" by simp
  ultimately show ?thesis
    using assms unfolding generateTerrain_def Let_def
    by (simp add: octavesLoop_single del: octavesLoop.simps)
qed

lemma naive_rounds: "map goRound (naiveTerrain width rnd) = map round (naiveTerrain width rnd)"
  by (simp add: naiveTerrain_def goRound_of_int del: of_int_add)

section \<open>The terrain of the game: 100 columns, six octaves\<close>

lemma octavesLoop_6:
  "octavesLoop naive 6 6 ([], 0) =
     Some (Inr ([octaveTerrain (1 / 32) 1 (controlPoints naive 1),
                 octaveTerrain (1 / 16) 2 (controlPoints naive 2),
                 octaveTerrain (1 / 8) 4 (controlPoints naive 4),
                 octaveTerrain (1 / 4) 8 (controlPoints naive 8),
                 octaveTerrain (1 / 2) 16 (controlPoints naive 16),
                 octaveTerrain 1 32 (controlPoints naive 32)], 63 / 32))"
  by (simp add: eval_nat_numeral shl1_small samplePointsLoop_0 Let_def)

lemma segment_nth:
  assumes "r < nat sample"
  shows "segment w sample sp i ! r =
     w * (if r = 0 then sp ! i
          else cosineInterpolation (sp ! i) (sp ! ((i + 1) mod length sp)) (real r / real_of_int sample))"
proof (cases r)
  case 0
  then show ?thesis by (simp add: segment_def)
next
  case (Suc r')
  have "[1..sample - 1] ! r' = int r" using assms Suc by simp
  moreover have "r' < length [1..sample - 1]" using assms Suc by simp
  ultimately show ?thesis using Suc by (simp add: segment_def)
qed

lemma octave_value:
  assumes "0 < s" "p < length naive"
  shows "p < length (octaveTerrain w (int s) (controlPoints naive (int s)))"
    and "octaveTerrain w (int s) (controlPoints naive (int s)) ! p =
     w * (if p mod s = 0 then naive ! p
          else cosineInterpolation (naive ! (p div s * s))
                 (naive ! (((p div s + 1) mod pointCount (length naive) (int s) 0) * s))
                 (real (p mod s) / real s))"
proof -
  let ?n = "pointCount (length naive) (int s) 0"
  let ?cp = "controlPoints naive (int s)"
  have s: "0 < int s" "1 \<le> int s" using assms(1) by simp_all
  have "int (length naive) \<le> int ?n * int s" using s(1) by (rule pointCount_cover)
  then have cover: "length naive \<le> ?n * s" by (metis of_nat_mult of_nat_le_iff)
  then have p: "p < length ?cp * nat (int s)"
    using assms(2) by (simp add: length_controlPoints)
  show "p < length (octaveTerrain w (int s) ?cp)"
    using p s(2) by (simp add: length_octaveTerrain)
  have q: "p div s < ?n"
    using p assms(1) by (simp add: length_controlPoints less_mult_imp_div_less)
  then have n: "0 < ?n" by linarith
  have q': "(p div s + 1) mod ?n < ?n" using n by simp
  have "octaveTerrain w (int s) ?cp ! p = segment w (int s) ?cp (p div s) ! (p mod s)"
    using octaveTerrain_nth [OF s(2) p] by simp
  also have "\<dots> = w * (if p mod s = 0 then ?cp ! (p div s)
          else cosineInterpolation (?cp ! (p div s)) (?cp ! ((p div s + 1) mod ?n)) (real (p mod s) / real s))"
    using assms(1) by (subst segment_nth) (simp_all add: length_controlPoints)
  also have "?cp ! (p div s) = naive ! (p div s * s)"
    using q by (simp add: controlPoints_nth flip: of_nat_mult)
  also have "?cp ! ((p div s + 1) mod ?n) = naive ! (((p div s + 1) mod ?n) * s)"
    using q' by (simp add: controlPoints_nth flip: of_nat_mult)
  finally show "octaveTerrain w (int s) ?cp ! p =
     w * (if p mod s = 0 then naive ! p
          else cosineInterpolation (naive ! (p div s * s))
                 (naive ! (((p div s + 1) mod ?n) * s))
                 (real (p mod s) / real s))"
    by (auto simp add: mod_eq_0_iff_dvd)
qed

lemma length_naiveTerrain: "length (naiveTerrain width rnd) = nat width"
  by (simp add: naiveTerrain_def)

lemma naiveTerrain_nth: "i < nat width \<Longrightarrow> naiveTerrain width rnd ! i = real_of_int (rnd i + 5)"
  by (simp add: naiveTerrain_def)

lemma generateTerrain_100_6:
  "generateTerrain 100 6 rnd =
     Some (Inr (map (\<lambda>i. goRound (finalHeight (sixOctaves (naiveTerrain 100 rnd)) (63 / 32) i)) [0..<100]))"
proof -
  have "nat 6 = 6" by simp
  then show ?thesis
    unfolding generateTerrain_def Let_def sixOctaves_def
    by (simp add: octavesLoop_6 length_naiveTerrain del: octavesLoop.simps)
qed

lemma finalHeight_six:
  assumes "p < length naive"
  shows "finalHeight (sixOctaves naive) ws p =
     (octaveTerrain (1 / 32) (int 1) (controlPoints naive (int 1)) ! p +
      octaveTerrain (1 / 16) (int 2) (controlPoints naive (int 2)) ! p +
      octaveTerrain (1 / 8) (int 4) (controlPoints naive (int 4)) ! p +
      octaveTerrain (1 / 4) (int 8) (controlPoints naive (int 8)) ! p +
      octaveTerrain (1 / 2) (int 16) (controlPoints naive (int 16)) ! p +
      octaveTerrain 1 (int 32) (controlPoints naive (int 32)) ! p) / ws"
proof -
  have "p < length (octaveTerrain w (int s) (controlPoints naive (int s)))" if "0 < s" for w s
    using that assms by (rule octave_value(1))
  from this [of 1] this [of 2] this [of 4] this [of 8] this [of 16] this [of 32]
  show ?thesis
    by (simp add: finalHeight_def sixOctaves_def)
qed

lemma c1_octave_1:
  assumes "s \<in> {1, 2, 4, 8, 16, 32}"
  shows "octaveTerrain w (int s) (controlPoints (naiveTerrain 100 c1_rnd) (int s)) ! 1 = w * 6"
proof -
  have "0 < s" using assms by auto
  then have "octaveTerrain w (int s) (controlPoints (naiveTerrain 100 c1_rnd) (int s)) ! 1 =
     w * (if 1 mod s = 0 then naiveTerrain 100 c1_rnd ! 1
          else cosineInterpolation (naiveTerrain 100 c1_rnd ! (1 div s * s))
                 (naiveTerrain 100 c1_rnd ! (((1 div s + 1) mod pointCount (length (naiveTerrain 100 c1_rnd)) (int s) 0) * s))
                 (real (1 mod s) / real s))"
    by (intro octave_value(2)) (simp_all add: length_naiveTerrain)
  also have "\<dots> = w * 6"
    using assms
    by (auto simp add: length_naiveTerrain naiveTerrain_nth pointCount_def c1_rnd_def cosineInterpolation_same)
  finally show ?thesis .
qed

lemma c1_octave_75:
  assumes "s \<in> {1, 2, 4, 8, 16, 32}"
  shows "octaveTerrain w (int s) (controlPoints (naiveTerrain 100 c1_rnd) (int s)) ! 75 = w * 5"
proof -
  have "0 < s" using assms by auto
  then have "octaveTerrain w (int s) (controlPoints (naiveTerrain 100 c1_rnd) (int s)) ! 75 =
     w * (if 75 mod s = 0 then naiveTerrain 100 c1_rnd ! 75
          else cosineInterpolation (naiveTerrain 100 c1_rnd ! (75 div s * s))
                 (naiveTerrain 100 c1_rnd ! (((75 div s + 1) mod pointCount (length (naiveTerrain 100 c1_rnd)) (int s) 0) * s))
                 (real (75 mod s) / real s))"
    by (intro octave_value(2)) (simp_all add: length_naiveTerrain)
  also have "\<dots> = w * 5"
    using assms
    by (auto simp add: length_naiveTerrain naiveTerrain_nth pointCount_def c1_rnd_def cosineInterpolation_same)
  finally show ?thesis .
qed

lemma c1_height_1: "finalHeight (sixOctaves (naiveTerrain 100 c1_rnd)) (63 / 32) 1 = 6"
  by (simp add: finalHeight_six length_naiveTerrain c1_octave_1 del: of_nat_numeral of_nat_1 One_nat_def)

lemma c1_height_75: "finalHeight (sixOctaves (naiveTerrain 100 c1_rnd)) (63 / 32) 75 = 5"
  by (simp add: finalHeight_six length_naiveTerrain c1_octave_75 del: of_nat_numeral of_nat_1 One_nat_def)

section \<open>simulate, branch by branch\<close>

lemma goTrunc_abs_int: "goTrunc \<bar>real_of_int d\<bar> = \<bar>d\<bar>"
  by (simp add: goTrunc_def flip: of_int_abs)

lemma goTrunc_abs_diff: "goTrunc \<bar>real_of_int a - real_of_int b\<bar> = \<bar>a - b\<bar>"
  using goTrunc_abs_int [of "a - b"] by simp

lemma index_in: "0 \<le> i \<Longrightarrow> i < int (length xs) \<Longrightarrow> index xs i = Inr (xs ! nat i)"
  by (simp add: index_def)

lemma simulate_idle: "\<not> simulating m \<Longrightarrow> simulate m = Inr (m, CmdNil)"
  by (simp add: simulate_def)

lemma simulate_miss:
  assumes "simulating m" "0 \<le> tankPos m" "tankPos m < int (length (terrain m))"
    and "\<not> clearsGround m"
  shows "simulate m = Inr (m\<lparr>timePassed := timePassed m + 1 / 10, simulating := False\<rparr>, reset)"
  using assms unfolding clearsGround_def tickX_def tickY_def
  by (auto simp add: simulate_def index_in Let_def)

lemma simulate_clear:
  assumes "simulating m" "inBounds m" "clearsGround m"
  shows "simulate m =
     (if inHitBand m
      then Inr (m\<lparr>timePassed := timePassed m + 1 / 10, ballPosX := goRound (tickX m),
                   ballPosY := goRound (tickY m), hit := True, simulating := False\<rparr>, CmdNil)
      else Inr (m\<lparr>timePassed := timePassed m + 1 / 10, ballPosX := goRound (tickX m),
                   ballPosY := goRound (tickY m)\<rparr>, tick))"
  using assms unfolding inBounds_def clearsGround_def inHitBand_def tickX_def tickY_def
  by (auto simp add: simulate_def index_in Let_def goTrunc_abs_diff)

lemma simulate_total:
  assumes "inBounds m"
  shows "\<exists>m' c. simulate m = Inr (m', c) \<and> inBounds m' \<and> (simulating m' \<longrightarrow> simulating m)"
proof (cases "simulating m")
  case False
  then show ?thesis using assms by (simp add: simulate_idle)
next
  case True
  show ?thesis
  proof (cases "clearsGround m")
    case False
    then show ?thesis
      using True assms by (simp add: simulate_miss inBounds_def)
  next
    case c: True
    show ?thesis
      using True assms c by (simp add: simulate_clear inBounds_def)
  qed
qed

section \<open>Runs of the event loop\<close>

lemma reachable_run:
  "reachable m \<Longrightarrow> validRnd rnd \<Longrightarrow> run m xs rnd = Some (Inr m') \<Longrightarrow> reachable m'"
proof (induction xs arbitrary: m)
  case Nil
  then show ?case by simp
next
  case (Cons x xs)
  from Cons.prems(3) obtain m1 c where u: "Update m x rnd = Some (Inr (m1, c))" and r: "run m1 xs rnd = Some (Inr m')"
    by (auto split: option.splits sum.splits)
  have "reachable m1" using Cons.prems(1,2) u by (rule reachable.step)
  then show ?case using Cons.prems(2) r by (rule Cons.IH)
qed

lemma run_append:
  "run m xs rnd = Some (Inr m1) \<Longrightarrow> run m (xs @ ys) rnd = run m1 ys rnd"
  by (induction xs arbitrary: m) (auto split: option.splits sum.splits)

lemma run_angle_down:
  "\<not> simulating m \<Longrightarrow> run m (replicate n (KeyMsg ''a'')) rnd = Some (Inr (m\<lparr>angle := angle m - 5 * real n\<rparr>))"
  by (induction n arbitrary: m) (simp_all add: Update_def algebra_simps)

lemma run_power_up:
  "\<not> simulating m \<Longrightarrow> run m (replicate n (KeyMsg ''w'')) rnd = Some (Inr (m\<lparr>power_m := power_m m + real n\<rparr>))"
  by (induction n arbitrary: m) (simp_all add: Update_def algebra_simps)

lemma c1_terrain_facts: "length c1_terrain = 100" "c1_terrain ! 1 = 6" "c1_terrain ! 75 = 5"
  by (simp_all add: c1_terrain_def c1_height_1 c1_height_75 goRound_def del: One_nat_def)

lemma c1_valid: "validRnd c1_rnd"
  by (simp add: validRnd_def c1_rnd_def)

lemma c1_initial: "initialModel c1_rnd = Some (Inr c1_init)"
  using c1_terrain_facts
  by (simp add: initialModel_def generateTerrain_100_6 c1_init_def index_def Let_def c1_rnd_def
      flip: c1_terrain_def)

lemma c1_aim: "run c1_init (replicate 9 (KeyMsg ''a'') @ replicate 720 (KeyMsg ''w'')) rnd = Some (Inr c1_aimed)"
proof -
  have "run c1_init (replicate 9 (KeyMsg ''a'')) rnd = Some (Inr (c1_init\<lparr>angle := 0\<rparr>))"
    by (subst run_angle_down) (simp_all add: c1_init_def)
  then have "run c1_init (replicate 9 (KeyMsg ''a'') @ replicate 720 (KeyMsg ''w'')) rnd =
      run (c1_init\<lparr>angle := 0\<rparr>) (replicate 720 (KeyMsg ''w'')) rnd"
    by (rule run_append)
  also have "\<dots> = Some (Inr c1_aimed)"
    by (subst run_power_up) (simp_all add: c1_init_def c1_aimed_def)
  finally show ?thesis .
qed

lemma c1_tick_values: "tickX c1_flying = 75" "tickY c1_flying = 6 - 981 / 20000"
  using c1_terrain_facts
  by (simp_all add: tickX_def tickY_def newXPos_def newYPos_def angleRad_def gravity_def
      c1_flying_def c1_aimed_def)

lemma c1_tick:
  "simulate c1_flying = Inr (c1_flying\<lparr>timePassed := 1 / 10, ballPosX := 75, ballPosY := 6,
      hit := True, simulating := False\<rparr>, CmdNil)"
proof -
  have "simulating c1_flying" "inBounds c1_flying"
    using c1_terrain_facts by (simp_all add: c1_flying_def c1_aimed_def inBounds_def)
  moreover have "clearsGround c1_flying"
    using c1_terrain_facts unfolding clearsGround_def c1_tick_values
    by (simp add: goTrunc_def c1_flying_def c1_aimed_def)
  moreover have "inHitBand c1_flying"
    using c1_terrain_facts unfolding inHitBand_def c1_tick_values
    by (simp add: goRound_def c1_flying_def c1_aimed_def)
  moreover have "goRound (tickY c1_flying) = 6" "goRound (tickX c1_flying) = 75"
    unfolding c1_tick_values by (simp_all add: goRound_def)
  ultimately show ?thesis
    by (simp add: simulate_clear c1_flying_def)
qed

lemma c1_run: "run c1_init c1_msgs c1_rnd = Some (Inr c1_state)"
proof -
  have "run c1_init c1_msgs c1_rnd = run c1_aimed [KeyMsg ''enter'', TickMsg, KeyMsg ''enter''] c1_rnd"
    unfolding c1_msgs_def append_assoc [symmetric] using c1_aim by (rule run_append)
  also have "\<dots> = run c1_flying [TickMsg, KeyMsg ''enter''] c1_rnd"
    by (simp add: Update_def c1_aimed_def c1_flying_def)
  also have "\<dots> = Some (Inr c1_state)"
    by (simp add: Update_def c1_tick) (simp add: c1_flying_def c1_aimed_def c1_state_def)
  finally show ?thesis .
qed

section \<open>The shape of reachable states\<close>

text \<open>Every reachable state is on the field, so the tank and the target stand on the terrain
  and no message makes \<^verbatim>\<open>Update\<close> panic.\<close>

lemma simulate_frame:
  assumes "simulate m = Inr (m', c)"
  shows "terrain m' = terrain m \<and> tankPos m' = tankPos m \<and> targetPos m' = targetPos m"
  using assms
  by (auto simp add: simulate_def Let_def split: if_splits sum.splits)

lemma validRnd_draws:
  assumes "validRnd rnd"
  shows "0 \<le> rnd 100" "rnd 100 < 5" "0 \<le> rnd 101" "rnd 101 < 5"
    "0 \<le> rnd 102" "rnd 102 < 5" "0 \<le> rnd 103" "rnd 103 < 5"
  using assms by (simp_all add: validRnd_def)

lemma initialModel_onField:
  assumes "validRnd rnd" "initialModel rnd = Some (Inr m)"
  shows "onField m"
  using assms(2) validRnd_draws [OF assms(1)]
  by (auto simp add: initialModel_def generateTerrain_100_6 Let_def onField_def split: sum.splits)

lemma resetGame_onField:
  assumes "validRnd rnd" "resetGame m rnd = Some (Inr m')"
  shows "onField m'"
  using assms(2) validRnd_draws [OF assms(1)]
  by (auto simp add: resetGame_def generateTerrain_100_6 onField_def split: sum.splits)

lemma Update_onField:
  assumes "onField m" "validRnd rnd" "Update m msg0 rnd = Some (Inr (m', c))"
  shows "onField m'"
proof (cases msg0)
  case (KeyMsg k)
  then show ?thesis
    using assms(1,3) by (auto simp add: Update_def onField_def split: if_splits)
next
  case TickMsg
  then have "simulate m = Inr (m', c)" using assms(3) by (simp add: Update_def)
  then show ?thesis using assms(1) simulate_frame by (simp add: onField_def)
next
  case ResetMsg
  then have "resetGame m rnd = Some (Inr m')"
    using assms(3) by (auto simp add: Update_def split: option.splits sum.splits)
  then show ?thesis using assms(2) by (intro resetGame_onField)
next
  case OtherMsg
  then show ?thesis using assms(1,3) by (simp add: Update_def)
qed

lemma reachable_onField: "reachable m \<Longrightarrow> onField m"
proof (induction rule: reachable.induct)
  case (init rnd m)
  then show ?case by (rule initialModel_onField)
next
  case (step m rnd msg0 m' c)
  then show ?case using Update_onField by blast
qed

lemma onField_inBounds: "onField m \<Longrightarrow> inBounds m"
  by (simp add: onField_def inBounds_def)

lemma Update_total:
  assumes "onField m" "validRnd rnd"
  shows "\<exists>m' c. Update m msg0 rnd = Some (Inr (m', c))"
proof (cases msg0)
  case (KeyMsg k)
  then show ?thesis by (simp add: Update_def)
next
  case TickMsg
  then show ?thesis
    using simulate_total [OF onField_inBounds [OF assms(1)]] by (auto simp add: Update_def)
next
  case ResetMsg
  have "index (terrain m) (rnd 103 + 1) = Inr (terrain m ! nat (rnd 103 + 1))"
    using assms(1) validRnd_draws(7,8) [OF assms(2)] by (intro index_in) (simp_all add: onField_def)
  then show ?thesis
    using ResetMsg by (simp add: Update_def resetGame_def generateTerrain_100_6)
next
  case OtherMsg
  then show ?thesis by (simp add: Update_def)
qed

section \<open>Heights of the example games\<close>

lemmas octave_value_six =
  octave_value(2) [of 1, simplified] octave_value(2) [of 2, simplified]
  octave_value(2) [of 4, simplified] octave_value(2) [of 8, simplified]
  octave_value(2) [of 16, simplified] octave_value(2) [of 32, simplified]


lemma finalHeight_six_num:
  assumes "p < length naive"
  shows "finalHeight (sixOctaves naive) ws p =
     (octaveTerrain (1 / 32) 1 (controlPoints naive 1) ! p +
      octaveTerrain (1 / 16) 2 (controlPoints naive 2) ! p +
      octaveTerrain (1 / 8) 4 (controlPoints naive 4) ! p +
      octaveTerrain (1 / 4) 8 (controlPoints naive 8) ! p +
      octaveTerrain (1 / 2) 16 (controlPoints naive 16) ! p +
      octaveTerrain 1 32 (controlPoints naive 32) ! p) / ws"
  using finalHeight_six [OF assms] by simp

lemma cosineInterpolation_half: "cosineInterpolation a b (1 / 2) = (a + b) / 2"
  by (simp add: cosineInterpolation_def Let_def field_simps)

lemma cosineInterpolation_lower:
  assumes "lo \<le> a" "lo \<le> b" shows "lo \<le> cosineInterpolation a b mu"
proof -
  let ?c = "(1 - cos (mu * pi)) / 2"
  have c: "0 \<le> ?c" "?c \<le> 1" by (rule cos_mu2_bounds)+
  have "lo = lo * (1 - ?c) + lo * ?c" by (simp add: algebra_simps)
  also have "\<dots> \<le> a * (1 - ?c) + b * ?c"
    using assms c by (intro add_mono mult_right_mono) simp_all
  finally show ?thesis by (simp add: cosineInterpolation_def Let_def)
qed

lemma cosineInterpolation_upper:
  assumes "a \<le> hi" "b \<le> hi" shows "cosineInterpolation a b mu \<le> hi"
proof -
  let ?c = "(1 - cos (mu * pi)) / 2"
  have c: "0 \<le> ?c" "?c \<le> 1" by (rule cos_mu2_bounds)+
  have "a * (1 - ?c) + b * ?c \<le> hi * (1 - ?c) + hi * ?c"
    using assms c by (intro add_mono mult_right_mono) simp_all
  also have "\<dots> = hi" by (simp add: algebra_simps)
  finally show ?thesis by (simp add: cosineInterpolation_def Let_def)
qed

lemma cos_three_quarters: "cos (3 / 4 * pi) \<le> 0"
proof -
  have "cos (pi - pi / 4) = - cos (pi / 4)" by (rule cos_pi_minus)
  moreover have "pi - pi / 4 = 3 / 4 * pi" by simp
  ultimately have "cos (3 / 4 * pi) = - cos (pi / 4)" by simp
  then show ?thesis by (simp add: cos_45)
qed

lemma cosineInterpolation_three_quarters:
  assumes "a \<le> b" shows "(a + b) / 2 \<le> cosineInterpolation a b (3 / 4)"
proof -
  let ?c = "(1 - cos (3 / 4 * pi)) / 2"
  have c: "1 / 2 \<le> ?c" using cos_three_quarters by simp
  have "cosineInterpolation a b (3 / 4) = a * (1 - ?c) + b * ?c"
    by (simp add: cosineInterpolation_def Let_def)
  also have "\<dots> = a + (b - a) * ?c"
    by (simp only: algebra_simps)
  finally have e: "cosineInterpolation a b (3 / 4) = a + (b - a) * ?c" .
  have "(b - a) * (1 / 2) \<le> (b - a) * ?c"
    using assms c by (intro mult_left_mono) simp_all
  then show ?thesis unfolding e by (simp add: field_simps)
qed

lemma goRound_eq:
  assumes "0 \<le> x" "real_of_int n - 1 / 2 \<le> x" "x < real_of_int n + 1 / 2"
  shows "goRound x = n"
proof -
  have "\<lfloor>x + 1 / 2\<rfloor> = n" using assms(2,3) by (intro floor_unique) simp_all
  then show ?thesis using assms(1) by (simp add: goRound_def)
qed

lemma goRound_ge:
  assumes "0 \<le> real_of_int n" "real_of_int n \<le> x"
  shows "n \<le> goRound x"
proof -
  have "real_of_int n \<le> x + 1 / 2" using assms(2) by simp
  then have "n \<le> \<lfloor>x + 1 / 2\<rfloor>" by (simp add: le_floor_iff)
  moreover have "0 \<le> x" using assms by linarith
  ultimately show ?thesis by (simp add: goRound_def)
qed

lemma c3_height_1: "finalHeight (sixOctaves (naiveTerrain 100 c3_rnd)) (63 / 32) 1 = 6"
  by (simp add: finalHeight_six_num length_naiveTerrain octave_value_six naiveTerrain_nth pointCount_def
      c3_rnd_def cosineInterpolation_same)

lemma c3_height_74: "finalHeight (sixOctaves (naiveTerrain 100 c3_rnd)) (63 / 32) 74 = 333 / 63"
  by (simp add: finalHeight_six_num length_naiveTerrain octave_value_six naiveTerrain_nth pointCount_def
      c3_rnd_def cosineInterpolation_same cosineInterpolation_half)

lemma c3_height_75: "finalHeight (sixOctaves (naiveTerrain 100 c3_rnd)) (63 / 32) 75 =
    (313 + 4 * cosineInterpolation 5 14 (3 / 4)) / 63"
  by (simp add: finalHeight_six_num length_naiveTerrain octave_value_six naiveTerrain_nth pointCount_def
      c3_rnd_def cosineInterpolation_same cosineInterpolation_half)

lemma c3_terrain_facts:
  "length c3_terrain = 100" "c3_terrain ! 1 = 6" "c3_terrain ! 74 = 5" "c3_terrain ! 75 = 6"
proof -
  show "length c3_terrain = 100" by (simp add: c3_terrain_def)
  show "c3_terrain ! 1 = 6"
    by (simp add: c3_terrain_def c3_height_1 goRound_def del: One_nat_def)
  show "c3_terrain ! 74 = 5"
    by (simp add: c3_terrain_def c3_height_74 goRound_def)
  have "19 / 2 \<le> cosineInterpolation 5 14 (3 / 4)"
    using cosineInterpolation_three_quarters [of 5 14] by simp
  moreover have "cosineInterpolation 5 14 (3 / 4) \<le> 14"
    by (rule cosineInterpolation_upper) simp_all
  ultimately have "goRound ((313 + 4 * cosineInterpolation 5 14 (3 / 4)) / 63) = 6"
    by (intro goRound_eq) simp_all
  then show "c3_terrain ! 75 = 6"
    by (simp add: c3_terrain_def c3_height_75)
qed

lemma c3_valid: "validRnd c3_rnd"
  by (simp add: validRnd_def c3_rnd_def)

lemma c3_initial: "initialModel c3_rnd = Some (Inr c3_init)"
  using c3_terrain_facts
  by (simp add: initialModel_def generateTerrain_100_6 c3_init_def index_def Let_def c3_rnd_def
      flip: c3_terrain_def)

lemma run_angle_up:
  "\<not> simulating m \<Longrightarrow> run m (replicate n (KeyMsg ''d'')) rnd = Some (Inr (m\<lparr>angle := angle m + 5 * real n\<rparr>))"
  by (induction n arbitrary: m) (simp_all add: Update_def algebra_simps)

lemma c3_run: "run c3_init c3_msgs rnd = Some (Inr c3_flying)"
proof -
  have "run c3_init (replicate 9 (KeyMsg ''a'')) rnd = Some (Inr (c3_init\<lparr>angle := 0\<rparr>))"
    by (subst run_angle_down) (simp_all add: c3_init_def)
  then have "run c3_init c3_msgs rnd =
      run (c3_init\<lparr>angle := 0\<rparr>) (replicate 716 (KeyMsg ''w'') @ [KeyMsg ''enter'']) rnd"
    unfolding c3_msgs_def by (rule run_append)
  also have "run (c3_init\<lparr>angle := 0\<rparr>) (replicate 716 (KeyMsg ''w'')) rnd =
      Some (Inr (c3_init\<lparr>angle := 0, power_m := 736\<rparr>))"
    by (subst run_power_up) (simp_all add: c3_init_def)
  then have "run (c3_init\<lparr>angle := 0\<rparr>) (replicate 716 (KeyMsg ''w'') @ [KeyMsg ''enter'']) rnd =
      run (c3_init\<lparr>angle := 0, power_m := 736\<rparr>) [KeyMsg ''enter''] rnd"
    by (rule run_append)
  also have "\<dots> = Some (Inr c3_flying)"
    by (simp add: Update_def c3_init_def c3_flying_def)
  finally show ?thesis .
qed

lemma c3_tick_values: "tickX c3_flying = 746 / 10" "tickY c3_flying = 6 - 981 / 20000"
  using c3_terrain_facts
  by (simp_all add: tickX_def tickY_def newXPos_def newYPos_def angleRad_def gravity_def c3_flying_def)

lemma c2_height_0: "finalHeight (sixOctaves (naiveTerrain 100 c2_rnd)) (63 / 32) 0 = 5"
  by (simp add: finalHeight_six_num length_naiveTerrain octave_value_six naiveTerrain_nth pointCount_def
      c2_rnd_def)

lemma c2_height_5: "finalHeight (sixOctaves (naiveTerrain 100 c2_rnd)) (63 / 32) 5 =
    (98 + 8 * cosineInterpolation 5 14 (5 / 8) + 16 * cosineInterpolation 5 14 (5 / 16) +
     32 * cosineInterpolation 5 14 (5 / 32)) / 63"
  by (simp add: finalHeight_six_num length_naiveTerrain octave_value_six naiveTerrain_nth pointCount_def
      c2_rnd_def cosineInterpolation_same cosineInterpolation_half)

lemma c2_terrain_facts:
  "length c2_terrain = 100" "c2_terrain ! 0 = 5" "6 \<le> c2_terrain ! 5"
proof -
  show "length c2_terrain = 100" by (simp add: c2_terrain_def)
  show "c2_terrain ! 0 = 5"
    by (simp add: c2_terrain_def c2_height_0 goRound_def)
  have "5 \<le> cosineInterpolation 5 14 mu" for mu
    by (rule cosineInterpolation_lower) simp_all
  from this [of "5 / 8"] this [of "5 / 16"] this [of "5 / 32"]
  have "real_of_int 6 \<le> (98 + 8 * cosineInterpolation 5 14 (5 / 8) + 16 * cosineInterpolation 5 14 (5 / 16) +
     32 * cosineInterpolation 5 14 (5 / 32)) / 63"
    by simp
  then have "6 \<le> goRound ((98 + 8 * cosineInterpolation 5 14 (5 / 8) + 16 * cosineInterpolation 5 14 (5 / 16) +
     32 * cosineInterpolation 5 14 (5 / 32)) / 63)"
    by (intro goRound_ge) simp_all
  then show "6 \<le> c2_terrain ! 5"
    by (simp add: c2_terrain_def c2_height_5)
qed

lemma c2_valid: "validRnd c2_rnd"
  by (simp add: validRnd_def c2_rnd_def)

lemma c2_initial: "initialModel c2_rnd = Some (Inr c2_init)"
  using c2_terrain_facts(1)
  by (simp add: initialModel_def generateTerrain_100_6 c2_init_def index_def Let_def c2_rnd_def
      flip: c2_terrain_def)

lemma c2_run: "run c2_init c2_msgs rnd = Some (Inr c2_flying)"
proof -
  have "run c2_init (replicate 27 (KeyMsg ''d'')) rnd = Some (Inr (c2_init\<lparr>angle := 180\<rparr>))"
    by (subst run_angle_up) (simp_all add: c2_init_def)
  then have "run c2_init c2_msgs rnd =
      run (c2_init\<lparr>angle := 180\<rparr>) (replicate 37 (KeyMsg ''w'') @ [KeyMsg ''enter'']) rnd"
    unfolding c2_msgs_def by (rule run_append)
  also have "run (c2_init\<lparr>angle := 180\<rparr>) (replicate 37 (KeyMsg ''w'')) rnd =
      Some (Inr (c2_init\<lparr>angle := 180, power_m := 57\<rparr>))"
    by (subst run_power_up) (simp_all add: c2_init_def)
  then have "run (c2_init\<lparr>angle := 180\<rparr>) (replicate 37 (KeyMsg ''w'') @ [KeyMsg ''enter'']) rnd =
      run (c2_init\<lparr>angle := 180, power_m := 57\<rparr>) [KeyMsg ''enter''] rnd"
    by (rule run_append)
  also have "\<dots> = Some (Inr c2_flying)"
    by (simp add: Update_def c2_init_def c2_flying_def)
  finally show ?thesis .
qed

lemma c2_tick_values: "tickX c2_flying = - (7 / 10)" "tickY c2_flying = real_of_int (c2_terrain ! 5) - 981 / 20000"
  by (simp_all add: tickX_def tickY_def newXPos_def newYPos_def angleRad_def gravity_def c2_flying_def)

section \<open>The generator returns\<close>

lemma generateTerrain_returns:
  assumes "0 \<le> width" "1 \<le> iterations" "iterations \<le> 63"
    and "\<forall>i < nat width. 0 \<le> rnd i \<and> rnd i < 10"
  shows "\<exists>t. generateTerrain width iterations rnd = Some (Inr t) \<and>
           int (length t) = width \<and> (\<forall>h \<in> set t. 0 \<le> h)"
proof -
  let ?naive = "naiveTerrain width rnd"
  have nn: "\<forall>v \<in> set ?naive. 0 \<le> v"
    using assms(4) by (intro naiveTerrain_nonneg) auto
  have "\<exists>ts ws. octavesLoop ?naive iterations (nat iterations) ([], 0) = Some (Inr (ts, ws)) \<and>
           nonnegAll ts \<and> 0 \<le> ws \<and> (0 < nat iterations \<longrightarrow> 0 < ws)"
    using assms(2,3) nn by (intro octavesLoop_ok) (simp_all add: nonnegAll_def)
  then obtain ts ws where r: "octavesLoop ?naive iterations (nat iterations) ([], 0) = Some (Inr (ts, ws))"
    and ts: "nonnegAll ts" and ws: "0 < ws" using assms(2) by auto
  let ?t = "map (\<lambda>i. goRound (finalHeight ts ws i)) [0..<length ?naive]"
  have "generateTerrain width iterations rnd = Some (Inr ?t)"
    using assms(1) r ws by (simp add: generateTerrain_def Let_def)
  moreover have "int (length ?t) = width"
    using assms(1) by (simp add: naiveTerrain_def)
  moreover have "\<forall>h \<in> set ?t. 0 \<le> h"
    using ts ws by (auto intro!: goRound_nonneg finalHeight_nonneg)
  ultimately show ?thesis by blast
qed

section \<open>The generator in bounded memory\<close>









section \<open>Claims about the terrain generator\<close>




text \<open>
  C6. With width 10 and a single octave the generated profile is the base random sequence,
  each value rounded to the nearest integer.
\<close>

theorem generateTerrain_single_octave_profile:
  "generateTerrain 10 1 rnd = Some (Inr (specSingleOctaveProfile (naiveTerrain 10 rnd)))"
  by (simp add: generateTerrain_single naive_rounds specSingleOctaveProfile_def)

text \<open>
  C9. After step 1 the generator is a function of the base sequence: two runs whose random
  sources agree on the \<open>width\<close> draws of step 1 (and may differ anywhere else) give the same
  result for the same width and octave count.
\<close>

theorem generateTerrain_deterministic:
  assumes "\<forall>i < nat width. rnd1 i = rnd2 i"
  shows "generateTerrain width iterations rnd1 = generateTerrain width iterations rnd2"
proof -
  have "naiveTerrain width rnd1 = naiveTerrain width rnd2"
    using assms by (simp add: naiveTerrain_def)
  then show ?thesis by (simp add: generateTerrain_def)
qed

theorem generateTerrain_deterministic_witness:
  "generateTerrain 2 6 (\<lambda>i. if i < 2 then 3 else 0) = generateTerrain 2 6 (\<lambda>i. if i < 2 then 3 else 7) \<and>
   (\<exists>t. generateTerrain 2 6 (\<lambda>i. if i < 2 then 3 else 0) = Some (Inr t) \<and> length t = 2)"
  using generateTerrain_deterministic [of 2 "\<lambda>i. if i < 2 then 3 else 0" "\<lambda>i. if i < 2 then 3 else 7" 6]
    generateTerrain_returns [of 2 6 "\<lambda>i. if i < 2 then 3 else 0"]
  by auto

section \<open>The time step in float64\<close>

lemma roundEven_error: "\<bar>real_of_int (roundEven y) - y\<bar> \<le> 1 / 2"
proof -
  have "real_of_int \<lfloor>y\<rfloor> \<le> y" "y < real_of_int \<lfloor>y\<rfloor> + 1" by linarith+
  then show ?thesis
    by (auto simp add: roundEven_def Let_def abs_le_iff)
qed

lemma roundFloat64_pos:
  assumes "0 < x"
  shows "roundFloat64 x =
     real_of_int (roundEven (x / 2 powr real_of_int (\<lfloor>log 2 x\<rfloor> - 52))) * 2 powr real_of_int (\<lfloor>log 2 x\<rfloor> - 52)"
  using assms by (simp add: roundFloat64_def Let_def)

lemma roundFloat64_at:
  assumes "0 < x" "2 powr real_of_int e \<le> x" "x < 2 powr real_of_int (e + 1)"
  shows "roundFloat64 x = real_of_int (roundEven (x / 2 powr real_of_int (e - 52))) * 2 powr real_of_int (e - 52)"
proof -
  have "\<lfloor>log 2 x\<rfloor> = e"
    using assms by (subst floor_log_eq_powr_iff) simp_all
  then show ?thesis using assms(1) by (simp add: roundFloat64_pos)
qed

lemma scaled_abs:
  fixes u r x :: real
  assumes "0 < u"
  shows "\<bar>r * u - x\<bar> = \<bar>r - x / u\<bar> * u"
proof -
  have "r * u - x = (r - x / u) * u" using assms by (simp add: field_simps)
  then show ?thesis using assms by (simp add: abs_mult)
qed

lemma roundFloat64_error:
  assumes "0 < x"
  shows "\<bar>roundFloat64 x - x\<bar> \<le> x / 2 ^ 53"
proof -
  let ?e = "\<lfloor>log 2 x\<rfloor>"
  let ?u = "2 powr real_of_int (?e - 52)"
  have u: "0 < ?u" by simp
  have "2 powr real_of_int ?e \<le> x"
    using assms floor_log_eq_powr_iff [of x 2 ?e] by simp
  moreover have "?u = 2 powr real_of_int ?e / 2 ^ 52"
    by (simp add: powr_diff)
  ultimately have ux: "?u \<le> x / 2 ^ 52" by (simp add: divide_right_mono)
  have "\<bar>roundFloat64 x - x\<bar> = \<bar>real_of_int (roundEven (x / ?u)) - x / ?u\<bar> * ?u"
    unfolding roundFloat64_pos [OF assms] using u by (rule scaled_abs)
  also have "\<dots> \<le> 1 / 2 * ?u"
    using roundEven_error [of "x / ?u"] u by (intro mult_right_mono) simp_all
  also have "\<dots> \<le> 1 / 2 * (x / 2 ^ 52)"
    using ux by simp
  finally show ?thesis by simp
qed

lemma step64_value: "step64 = 3602879701896397 / 2 ^ 55"
proof -
  have "roundFloat64 (1 / 10) =
      real_of_int (roundEven ((1 / 10) / 2 powr real_of_int (- 4 - 52))) * 2 powr real_of_int (- 4 - 52)"
    by (rule roundFloat64_at) (simp_all add: powr_minus)
  also have "2 powr real_of_int (- 4 - 52) = 1 / 2 ^ 56"
    by (simp add: powr_minus inverse_eq_divide)
  also have "roundEven ((1 / 10) / (1 / 2 ^ 56)) = 7205759403792794"
    by (simp add: roundEven_def Let_def)
  finally show ?thesis by (simp add: step64_def)
qed

lemma addStep64_increases:
  assumes "0 \<le> t" "t + step64 < 2 ^ 49"
  shows "t < addStep64 t" "\<bar>addStep64 t - (t + step64)\<bar> \<le> (t + step64) / 2 ^ 53"
proof -
  have s: "1 / 16 < step64" by (simp add: step64_value)
  then have pos: "0 < t + step64" using assms(1) by linarith
  show e: "\<bar>addStep64 t - (t + step64)\<bar> \<le> (t + step64) / 2 ^ 53"
    unfolding addStep64_def using pos by (rule roundFloat64_error)
  have "(t + step64) / 2 ^ 53 < 2 ^ 49 / 2 ^ 53"
    using assms(2) by (intro divide_strict_right_mono) simp_all
  then have "(t + step64) / 2 ^ 53 < 1 / 16" by simp
  then show "t < addStep64 t" using e s by linarith
qed

lemma simulate_as_simulateWith: "simulate m = simulateWith newXPos newYPos (\<lambda>t. t + 1 / 10) m"
  by (simp add: simulate_def simulateWith_def)

lemma simulateWith_time:
  assumes "simulating m" "inBounds m"
  shows "\<exists>m' c. simulateWith xAt yAt addStep m = Inr (m', c) \<and> timePassed m' = addStep (timePassed m)"
  using assms unfolding inBounds_def
  by (auto simp add: simulateWith_def index_in Let_def)

lemma simulateWith_continue:
  assumes "simulating m" "inBounds m"
    and "t = addStep (timePassed m)" "x = xAt m t" "y = yAt m (terrain m ! nat (tankPos m)) t"
    and "0 \<le> goTrunc x" "goTrunc x < int (length (terrain m))"
    and "real_of_int (terrain m ! nat (goTrunc x)) < y"
    and "3 < \<bar>targetPos m - goRound x\<bar>"
  shows "simulateWith xAt yAt addStep m =
     Inr (m\<lparr>timePassed := t, ballPosX := goRound x, ballPosY := goRound y\<rparr>, tick)"
  using assms unfolding inBounds_def
  by (auto simp add: simulateWith_def index_in Let_def goTrunc_abs_diff)

lemma addStep64_first_three:
  "addStep64 0 = 3602879701896397 / 2 ^ 55"
  "addStep64 (3602879701896397 / 2 ^ 55) = 7205759403792794 / 2 ^ 55"
  "addStep64 (7205759403792794 / 2 ^ 55) = 5404319552844596 / 2 ^ 54"
proof -
  have "roundFloat64 (3602879701896397 / 2 ^ 55) =
      real_of_int (roundEven ((3602879701896397 / 2 ^ 55) / 2 powr real_of_int (- 4 - 52))) * 2 powr real_of_int (- 4 - 52)"
    by (rule roundFloat64_at) (simp_all add: powr_minus)
  also have "2 powr real_of_int (- 4 - 52) = 1 / 2 ^ 56"
    by (simp add: powr_minus inverse_eq_divide)
  also have "roundEven ((3602879701896397 / 2 ^ 55) / (1 / 2 ^ 56)) = 7205759403792794"
    by (simp add: roundEven_def Let_def)
  finally show "addStep64 0 = 3602879701896397 / 2 ^ 55"
    by (simp add: addStep64_def step64_value)
  have "roundFloat64 (7205759403792794 / 2 ^ 55) =
      real_of_int (roundEven ((7205759403792794 / 2 ^ 55) / 2 powr real_of_int (- 3 - 52))) * 2 powr real_of_int (- 3 - 52)"
    by (rule roundFloat64_at) (simp_all add: powr_minus)
  also have "2 powr real_of_int (- 3 - 52) = 1 / 2 ^ 55"
    by (simp add: powr_minus inverse_eq_divide)
  also have "roundEven ((7205759403792794 / 2 ^ 55) / (1 / 2 ^ 55)) = 7205759403792794"
    by (simp add: roundEven_def Let_def)
  finally show "addStep64 (3602879701896397 / 2 ^ 55) = 7205759403792794 / 2 ^ 55"
    by (simp add: addStep64_def step64_value)
  have "roundFloat64 (10808639105689191 / 2 ^ 55) =
      real_of_int (roundEven ((10808639105689191 / 2 ^ 55) / 2 powr real_of_int (- 2 - 52))) * 2 powr real_of_int (- 2 - 52)"
    by (rule roundFloat64_at) (simp_all add: powr_minus)
  also have "2 powr real_of_int (- 2 - 52) = 1 / 2 ^ 54"
    by (simp add: powr_minus inverse_eq_divide)
  also have "roundEven ((10808639105689191 / 2 ^ 55) / (1 / 2 ^ 54)) = 5404319552844596"
    by (simp add: roundEven_def Let_def)
  finally show "addStep64 (7205759403792794 / 2 ^ 55) = 5404319552844596 / 2 ^ 54"
    by (simp add: addStep64_def step64_value)
qed

lemma c7_run: "run c1_init c7_msgs rnd = Some (Inr c7_flying)"
proof -
  have "run c1_init (replicate 9 (KeyMsg ''d'')) rnd = Some (Inr (c1_init\<lparr>angle := 90\<rparr>))"
    by (subst run_angle_up) (simp_all add: c1_init_def)
  then have "run c1_init c7_msgs rnd = run (c1_init\<lparr>angle := 90\<rparr>) [KeyMsg ''enter''] rnd"
    unfolding c7_msgs_def by (rule run_append)
  also have "\<dots> = Some (Inr c7_flying)"
    by (simp add: Update_def c1_init_def c7_flying_def)
  finally show ?thesis .
qed

lemma c7_position:
  assumes "terrain m = c1_terrain" "tankPos m = 1" "angle m = 90" "power_m m = 20"
  shows "newXPos m t = 1" "newYPos m (terrain m ! nat (tankPos m)) t = 6 + 20 * t - 981 / 200 * t * t"
  using assms c1_terrain_facts
  by (simp_all add: newXPos_def newYPos_def angleRad_def gravity_def)

lemma c7_tick:
  assumes "m = c7_flying\<lparr>timePassed := t0, ballPosX := 1, ballPosY := b\<rparr>"
    and "t = addStep64 t0" and "0 < 20 * t - 981 / 200 * t * t"
  shows "simulateWith newXPos newYPos addStep64 m =
     Inr (c7_flying\<lparr>timePassed := t, ballPosX := 1, ballPosY := goRound (6 + 20 * t - 981 / 200 * t * t)\<rparr>, tick)"
proof -
  have f: "terrain m = c1_terrain" "tankPos m = 1" "angle m = 90" "power_m m = 20" "targetPos m = 75"
      "simulating m" "timePassed m = t0"
    by (simp_all add: assms(1) c7_flying_def)
  have b: "inBounds m" using f c1_terrain_facts by (simp add: inBounds_def)
  have x: "newXPos m t = 1" and y: "newYPos m (terrain m ! nat (tankPos m)) t = 6 + 20 * t - 981 / 200 * t * t"
    using c7_position [OF f(1-4)] by simp_all
  have "simulateWith newXPos newYPos addStep64 m =
     Inr (m\<lparr>timePassed := t, ballPosX := goRound (newXPos m t),
           ballPosY := goRound (newYPos m (terrain m ! nat (tankPos m)) t)\<rparr>, tick)"
  proof (rule simulateWith_continue [OF f(6) b])
    show "t = addStep64 (timePassed m)" using assms(2) f(7) by simp
    show "0 \<le> goTrunc (newXPos m t)" "goTrunc (newXPos m t) < int (length (terrain m))"
      unfolding x using f(1) c1_terrain_facts by (simp_all add: goTrunc_def)
    show "real_of_int (terrain m ! nat (goTrunc (newXPos m t))) < newYPos m (terrain m ! nat (tankPos m)) t"
      unfolding x y using f(1) c1_terrain_facts assms(3) by (simp add: goTrunc_def)
    show "3 < \<bar>targetPos m - goRound (newXPos m t)\<bar>"
      unfolding x f(5) by (simp add: goRound_def)
  qed simp_all
  then show ?thesis unfolding x y by (simp add: assms(1) goRound_def c7_flying_def)
qed

lemma c7_ticks:
  "ticksWith newXPos newYPos addStep64 2 c7_flying = Inr c7_tick2"
  "ticksWith newXPos newYPos addStep64 3 c7_flying = Inr c7_tick3"
proof -
  have s0: "c7_flying = c7_flying\<lparr>timePassed := 0, ballPosX := 1, ballPosY := 6\<rparr>"
    by (simp add: c7_flying_def)
  have t1: "simulateWith newXPos newYPos addStep64 c7_flying =
      Inr (c7_flying\<lparr>timePassed := 3602879701896397 / 2 ^ 55, ballPosX := 1, ballPosY := 8\<rparr>, tick)"
    using c7_tick [OF s0 addStep64_first_three(1) [symmetric]] by (simp add: goRound_def)
  have t2: "simulateWith newXPos newYPos addStep64
        (c7_flying\<lparr>timePassed := 3602879701896397 / 2 ^ 55, ballPosX := 1, ballPosY := 8\<rparr>) =
      Inr (c7_tick2, tick)"
    using c7_tick [OF refl addStep64_first_three(2) [symmetric], of 8]
    by (simp add: goRound_def c7_tick2_def)
  have t3: "simulateWith newXPos newYPos addStep64 c7_tick2 = Inr (c7_tick3, tick)"
    using c7_tick [OF c7_tick2_def addStep64_first_three(3) [symmetric]]
    by (simp add: goRound_def c7_tick3_def)
  have one: "ticksWith newXPos newYPos addStep64 1 c7_flying =
      Inr (c7_flying\<lparr>timePassed := 3602879701896397 / 2 ^ 55, ballPosX := 1, ballPosY := 8\<rparr>)"
    using t1 by simp
  have "ticksWith newXPos newYPos addStep64 (Suc 1) c7_flying = Inr c7_tick2"
    unfolding ticksWith.simps(2) one using t2 by simp
  then show two: "ticksWith newXPos newYPos addStep64 2 c7_flying = Inr c7_tick2"
    by (simp add: numeral_2_eq_2)
  have "ticksWith newXPos newYPos addStep64 (Suc 2) c7_flying = Inr c7_tick3"
    unfolding ticksWith.simps(2) two using t3 by simp
  then show "ticksWith newXPos newYPos addStep64 3 c7_flying = Inr c7_tick3"
    by (simp add: numeral_3_eq_3 numeral_2_eq_2)
qed

section \<open>Example states\<close>

lemma flatWith_facts:
  "col < 100 \<Longrightarrow> length (flatWith b col h) = 100"
  "col < 100 \<Longrightarrow> flatWith b col h ! col = h"
  "i < 100 \<Longrightarrow> i \<noteq> col \<Longrightarrow> col < 100 \<Longrightarrow> flatWith b col h ! i = b"
  by (auto simp add: flatWith_def nth_append nth_Cons split: nat.splits)

lemma shot_tick:
  "tickX (shot ter pw) = 1 + pw / 10"
  "tickY (shot ter pw) = real_of_int (ter ! 1) - 981 / 20000"
  by (simp_all add: tickX_def tickY_def newXPos_def newYPos_def angleRad_def gravity_def shot_def)

lemma shot_facts:
  "simulating (shot ter pw)" "\<not> hit (shot ter pw)" "tankPos (shot ter pw) = 1"
  "targetPos (shot ter pw) = 75" "terrain (shot ter pw) = ter" "timePassed (shot ter pw) = 0"
  by (simp_all add: shot_def)

lemma shot_inBounds: "length ter = 100 \<Longrightarrow> inBounds (shot ter pw)"
  by (simp add: inBounds_def shot_def)

section \<open>Claims about the game state and the simulator\<close>

text \<open>
  C1. The claim: no reachable state has \<open>simulating\<close> and \<open>hit\<close> both true. The program
  reaches such a state: after a hit the key handler still accepts \<^verbatim>\<open>enter\<close> (it tests only
  \<^verbatim>\<open>!m.simulating\<close>) and sets \<open>simulating\<close> without clearing \<open>hit\<close>. The state \<open>c1_state\<close> is
  reached from the start with the draws \<open>c1_rnd\<close> (results \<^verbatim>\<open>rand.Intn\<close> can return) by the
  messages \<open>c1_msgs\<close>.
\<close>

theorem fire_after_hit_reachable:
  "initialModel c1_rnd = Some (Inr c1_init) \<and>
   length c1_terrain = 100 \<and> c1_terrain ! 1 = 6 \<and> c1_terrain ! 75 = 5 \<and>
   run c1_init c1_msgs c1_rnd = Some (Inr c1_state) \<and>
   reachable c1_state \<and> simulating c1_state \<and> hit c1_state"
proof -
  have "reachable c1_init" using c1_valid c1_initial by (rule reachable.init)
  then have "reachable c1_state" using c1_valid c1_run by (rule reachable_run)
  then show ?thesis using c1_initial c1_run c1_terrain_facts by (simp add: c1_state_def)
qed

text \<open>
  C2 (as amended). In a simulating state whose tank stands on the terrain, a tick computes
  \<open>x(t) = launchX + power * cos(angleRad) * t\<close> at \<open>t = timePassed + 0.1\<close>; if \<open>x(t)\<close>
  truncated towards zero is a column outside \<open>[0, width)\<close>, the shot is a miss: \<open>simulating\<close>
  becomes false and a reset is scheduled.
\<close>

theorem simulate_out_of_bounds_miss:
  assumes "simulating m" "0 \<le> tankPos m" "tankPos m < int (length (terrain m))"
    and "goTrunc (tickX m) < 0 \<or> int (length (terrain m)) \<le> goTrunc (tickX m)"
  shows "tickX m = real_of_int (tankPos m) + power_m m * cos (angle m * pi / 180) * (timePassed m + 1 / 10) \<and>
         simulate m = Inr (m\<lparr>timePassed := timePassed m + 1 / 10, simulating := False\<rparr>, reset)"
proof -
  have "\<not> clearsGround m" using assms(4) by (auto simp add: clearsGround_def)
  then show ?thesis using assms(1-3) by (simp add: simulate_miss tickX_def newXPos_def angleRad_def)
qed

theorem simulate_out_of_bounds_miss_witness:
  "goTrunc (tickX (shot (flatWith 6 99 5) 1000)) = 101 \<and>
   simulate (shot (flatWith 6 99 5) 1000) =
     Inr (shot (flatWith 6 99 5) 1000\<lparr>timePassed := 1 / 10, simulating := False\<rparr>, reset)"
proof -
  have g: "goTrunc (tickX (shot (flatWith 6 99 5) 1000)) = 101"
    by (simp add: shot_tick goTrunc_def)
  then show ?thesis
    using simulate_out_of_bounds_miss [of "shot (flatWith 6 99 5) 1000"]
    by (simp add: shot_facts flatWith_facts)
qed

text \<open>
  C2 as stated fails, in a state the program reaches: on the terrain drawn with \<open>c2_rnd\<close>
  (height 5 on column 0, at least 6 on column 5, where the tank stands) the player turns to
  180 degrees, raises the power to 57 and fires. The first tick computes \<open>x(t) = -0.7\<close>,
  which rounds to column \<open>-1\<close>, outside \<open>[0, 100)\<close>; the code tests the truncated column 0,
  finds the projectile above the ground there, and the flight goes on: \<open>simulating\<close> stays
  true and the next tick, not a reset, is scheduled.
\<close>

theorem simulate_rounded_out_of_bounds_continues:
  "initialModel c2_rnd = Some (Inr c2_init) \<and> run c2_init c2_msgs c2_rnd = Some (Inr c2_flying) \<and>
   reachable c2_flying \<and> simulating c2_flying \<and> length (terrain c2_flying) = 100 \<and>
   terrain c2_flying ! 0 = 5 \<and> 6 \<le> terrain c2_flying ! 5 \<and>
   tickX c2_flying = - (7 / 10) \<and> goRound (tickX c2_flying) = - 1 \<and>
   simulate c2_flying =
     Inr (c2_flying\<lparr>timePassed := 1 / 10, ballPosX := - 1, ballPosY := c2_terrain ! 5\<rparr>, tick) \<and>
   simulating (c2_flying\<lparr>timePassed := 1 / 10, ballPosX := - 1, ballPosY := c2_terrain ! 5\<rparr>) \<and>
   tick \<noteq> reset"
proof -
  have "reachable c2_init" using c2_valid c2_initial by (rule reachable.init)
  then have reach: "reachable c2_flying" using c2_valid c2_run by (rule reachable_run)
  have s: "simulating c2_flying" by (simp add: c2_flying_def)
  have rx: "goRound (tickX c2_flying) = - 1" "goTrunc (tickX c2_flying) = 0"
    unfolding c2_tick_values by (simp_all add: goRound_def goTrunc_def)
  have ry: "goRound (tickY c2_flying) = c2_terrain ! 5"
    unfolding c2_tick_values using c2_terrain_facts(3) by (intro goRound_eq) simp_all
  have "inBounds c2_flying" using c2_terrain_facts by (simp add: inBounds_def c2_flying_def)
  moreover have "clearsGround c2_flying"
    unfolding clearsGround_def rx unfolding c2_tick_values
    using c2_terrain_facts by (simp add: c2_flying_def)
  moreover have "\<not> inHitBand c2_flying"
    unfolding inHitBand_def rx by (simp add: c2_flying_def)
  ultimately have sim: "simulate c2_flying =
     Inr (c2_flying\<lparr>timePassed := 1 / 10, ballPosX := - 1, ballPosY := c2_terrain ! 5\<rparr>, tick)"
    using s rx ry by (simp add: simulate_clear) (simp add: c2_flying_def)
  have ter: "length (terrain c2_flying) = 100" "terrain c2_flying ! 0 = 5" "6 \<le> terrain c2_flying ! 5"
    using c2_terrain_facts by (simp_all add: c2_flying_def)
  have s': "simulating (c2_flying\<lparr>timePassed := 1 / 10, ballPosX := - 1, ballPosY := c2_terrain ! 5\<rparr>)"
    using s by simp
  have ne: "tick \<noteq> reset" by (simp add: tick_def reset_def)
  show ?thesis
    by (intro conjI) (fact c2_initial c2_run reach s ter c2_tick_values rx sim s' ne)+
qed

text \<open>
  C3 (as amended). In a simulating state whose tank stands on the terrain, if the column of
  \<open>x(t)\<close> truncated towards zero is on the terrain, the unrounded height \<open>y(t)\<close> is at or
  below the terrain height of that column, and the rounded position is within the target's
  hit band, then the tick is a miss and not a hit: \<open>simulating\<close> becomes false, a reset is
  scheduled and the hit flag is left as it was.
\<close>

theorem simulate_ground_before_target:
  assumes "simulating m" "0 \<le> tankPos m" "tankPos m < int (length (terrain m))"
    and "0 \<le> goTrunc (tickX m)" "goTrunc (tickX m) < int (length (terrain m))"
    and "tickY m \<le> real_of_int (terrain m ! nat (goTrunc (tickX m)))"
    and "inHitBand m"
  shows "simulate m = Inr (m\<lparr>timePassed := timePassed m + 1 / 10, simulating := False\<rparr>, reset)"
proof -
  have "\<not> clearsGround m" using assms(6) by (simp add: clearsGround_def)
  then show ?thesis using assms(1-3) by (simp add: simulate_miss)
qed

theorem simulate_ground_before_target_witness:
  "inHitBand (shot (flatWith 6 74 6) 736) \<and>
   simulate (shot (flatWith 6 74 6) 736) =
     Inr (shot (flatWith 6 74 6) 736\<lparr>timePassed := 1 / 10, simulating := False\<rparr>, reset)"
proof -
  let ?m = "shot (flatWith 6 74 6) 736"
  have t: "tickX ?m = 746 / 10" "tickY ?m = 6 - 981 / 20000"
    by (simp_all add: shot_tick flatWith_facts)
  have r: "goRound (tickX ?m) = 75" "goRound (tickY ?m) = 6" "goTrunc (tickX ?m) = 74"
    unfolding t by (simp_all add: goRound_def goTrunc_def)
  have b: "inHitBand ?m"
    unfolding inHitBand_def r by (simp add: shot_facts flatWith_facts)
  have "tickY ?m \<le> real_of_int (terrain ?m ! nat (goTrunc (tickX ?m)))"
    unfolding r unfolding t by (simp add: shot_facts flatWith_facts)
  then show ?thesis
    using simulate_ground_before_target [of ?m] b r(3) by (simp add: shot_facts flatWith_facts)
qed

text \<open>
  C3 as stated fails when the projectile's column is the rounded one, in a state the program
  reaches: on the terrain drawn with \<open>c3_rnd\<close> (height 6 under the tank on column 1, 5 on
  column 74, 6 on the target's column 75) the player lowers the angle to 0, raises the power
  to 736 and fires. The first tick computes \<open>x(t) = 74.6\<close> and \<open>y(t) = 5.95\<close>: the
  projectile's column is 75, where the terrain height is 6, so the position is at or below
  the terrain there (also after rounding \<open>y\<close> to 6) and within the band of the target. The
  ground test reads column 74, of height 5, and passes; the tick is a hit.
\<close>

theorem simulate_hit_below_rounded_column:
  "initialModel c3_rnd = Some (Inr c3_init) \<and> run c3_init c3_msgs c3_rnd = Some (Inr c3_flying) \<and>
   reachable c3_flying \<and> simulating c3_flying \<and>
   terrain c3_flying ! 1 = 6 \<and> terrain c3_flying ! 74 = 5 \<and> terrain c3_flying ! 75 = 6 \<and>
   tickX c3_flying = 746 / 10 \<and> tickY c3_flying = 6 - 981 / 20000 \<and>
   goRound (tickX c3_flying) = 75 \<and>
   tickY c3_flying \<le> real_of_int (terrain c3_flying ! 75) \<and>
   goRound (tickY c3_flying) \<le> terrain c3_flying ! 75 \<and>
   inHitBand c3_flying \<and>
   simulate c3_flying =
     Inr (c3_flying\<lparr>timePassed := 1 / 10, ballPosX := 75, ballPosY := 6,
            hit := True, simulating := False\<rparr>, CmdNil)"
proof -
  have "reachable c3_init" using c3_valid c3_initial by (rule reachable.init)
  then have reach: "reachable c3_flying" using c3_valid c3_run by (rule reachable_run)
  have r: "goRound (tickX c3_flying) = 75" "goRound (tickY c3_flying) = 6"
    unfolding c3_tick_values by (simp_all add: goRound_def)
  have ter: "terrain c3_flying ! 75 = 6" "terrain c3_flying ! 74 = 5"
      "terrain c3_flying ! nat (targetPos c3_flying) = 6" "terrain c3_flying ! 1 = 6"
    using c3_terrain_facts by (simp_all add: c3_flying_def)
  have s: "simulating c3_flying" by (simp add: c3_flying_def)
  have b: "inHitBand c3_flying"
    unfolding inHitBand_def r ter by (simp add: c3_flying_def)
  have "inBounds c3_flying" using c3_terrain_facts by (simp add: inBounds_def c3_flying_def)
  moreover have "clearsGround c3_flying"
    using c3_terrain_facts unfolding clearsGround_def c3_tick_values
    by (simp add: goTrunc_def c3_flying_def)
  ultimately have sim: "simulate c3_flying = Inr (c3_flying\<lparr>timePassed := 1 / 10, ballPosX := 75, ballPosY := 6,
            hit := True, simulating := False\<rparr>, CmdNil)"
    using b r s by (simp add: simulate_clear) (simp add: c3_flying_def)
  have below: "tickY c3_flying \<le> real_of_int (terrain c3_flying ! 75)"
    unfolding ter unfolding c3_tick_values by simp
  have below': "goRound (tickY c3_flying) \<le> terrain c3_flying ! 75"
    unfolding ter r by simp
  show ?thesis
    by (intro conjI) (fact c3_initial c3_run reach s ter c3_tick_values r below below' b sim)+
qed

text \<open>
  C4. In a simulating state (tank and target on the terrain) whose tick passes the bounds
  and ground tests, the tick returns; landing on the target column \<open>T\<close> at rounded height
  \<open>terrain[T] + 2\<close> sets the hit flag and stops the simulation; at rounded height
  \<open>terrain[T] + 3\<close> the hit flag is left as it was and the flight continues with the next
  tick scheduled; and the tick is a hit exactly when the rounded column is within 3 of the
  target column and the rounded height within 2 of the terrain height at the target.
  Every reachable state has its tank and target on the terrain (\<open>reachable_onField\<close>).
\<close>

theorem simulate_hit_band:
  assumes "simulating m" "inBounds m" "clearsGround m"
  shows "\<exists>m' c. simulate m = Inr (m', c) \<and>
     (goRound (tickX m) = targetPos m \<and> goRound (tickY m) = terrain m ! nat (targetPos m) + 2
        \<longrightarrow> hit m' \<and> \<not> simulating m') \<and>
     (goRound (tickX m) = targetPos m \<and> goRound (tickY m) = terrain m ! nat (targetPos m) + 3
        \<longrightarrow> hit m' = hit m \<and> simulating m' \<and> c = tick) \<and>
     (hit m' \<and> \<not> simulating m' \<and> c = CmdNil \<longleftrightarrow> inHitBand m)"
proof (cases "inHitBand m")
  case True
  then show ?thesis
    using assms by (simp add: simulate_clear) (auto simp add: inHitBand_def)
next
  case False
  then show ?thesis
    using assms by (simp add: simulate_clear) (auto simp add: inHitBand_def)
qed

theorem simulate_hit_band_witness:
  "(\<exists>m' c. simulate (shot (flatWith 7 75 5) 740) = Inr (m', c) \<and> hit m' \<and> \<not> simulating m' \<and> c = CmdNil) \<and>
   (\<exists>m' c. simulate (shot (flatWith 8 75 5) 740) = Inr (m', c) \<and> \<not> hit m' \<and> simulating m' \<and> c = tick)"
proof -
  have t: "tickX (shot (flatWith b 75 5) 740) = 75"
      "tickY (shot (flatWith b 75 5) 740) = real_of_int b - 981 / 20000" for b
    by (simp_all add: shot_tick flatWith_facts)
  have r: "goRound (tickX (shot (flatWith b 75 5) 740)) = 75" for b
    unfolding t by (simp add: goRound_def)
  have y: "goRound (tickY (shot (flatWith 7 75 5) 740)) = 7"
      "goRound (tickY (shot (flatWith 8 75 5) 740)) = 8"
    unfolding t by (simp_all add: goRound_def)
  have p: "inBounds (shot (flatWith b 75 5) 740)" "terrain (shot (flatWith b 75 5) 740) ! 75 = 5" for b
    by (simp_all add: shot_inBounds shot_facts flatWith_facts)
  have c: "clearsGround (shot (flatWith b 75 5) 740)" if "6 \<le> b" for b
    unfolding clearsGround_def t using that by (simp add: goTrunc_def shot_facts flatWith_facts)
  show ?thesis
    using simulate_hit_band [of "shot (flatWith 7 75 5) 740"]
      simulate_hit_band [of "shot (flatWith 8 75 5) 740"] c [of 7] c [of 8]
    by (simp add: r y p shot_facts flatWith_facts inHitBand_def) blast
qed

text \<open>
  C7 (as amended). When the fire command is accepted in the aiming state, elapsed time is
  set to zero and the first tick is scheduled. Every tick processed while \<open>simulating\<close> is
  true, whatever the position it computes and whatever its outcome, replaces the elapsed time
  \<open>t\<close> (from 0 and below \<open>2^49\<close>) by the \<^verbatim>\<open>float64\<close> sum of \<open>t\<close> and the constant \<^verbatim>\<open>0.1\<close>: a strictly
  greater value, which differs from \<open>t\<close> plus the constant by one rounding, at most
  \<open>2^-53\<close> of the sum. The tank and the target stand on the terrain in every reachable state
  (\<open>reachable_onField\<close>).
\<close>

theorem tick_adds_float_step:
  assumes "inBounds m"
  shows "(\<not> simulating m \<longrightarrow>
           Update m (KeyMsg ''enter'') rnd = Some (Inr (m\<lparr>simulating := True, timePassed := 0\<rparr>, tick))) \<and>
         (simulating m \<and> 0 \<le> timePassed m \<and> timePassed m + step64 < 2 ^ 49 \<longrightarrow>
           (\<exists>m' c. simulateWith xAt yAt addStep64 m = Inr (m', c) \<and>
              timePassed m' = roundFloat64 (timePassed m + step64) \<and>
              timePassed m < timePassed m' \<and>
              \<bar>timePassed m' - (timePassed m + step64)\<bar> \<le> (timePassed m + step64) / 2 ^ 53))"
proof (intro conjI impI)
  assume "\<not> simulating m"
  then show "Update m (KeyMsg ''enter'') rnd = Some (Inr (m\<lparr>simulating := True, timePassed := 0\<rparr>, tick))"
    by (simp add: Update_def)
next
  assume a: "simulating m \<and> 0 \<le> timePassed m \<and> timePassed m + step64 < 2 ^ 49"
  then obtain m' c where r: "simulateWith xAt yAt addStep64 m = Inr (m', c)"
      "timePassed m' = addStep64 (timePassed m)"
    using simulateWith_time [of m xAt yAt addStep64] assms by blast
  have "timePassed m < addStep64 (timePassed m)"
    "\<bar>addStep64 (timePassed m) - (timePassed m + step64)\<bar> \<le> (timePassed m + step64) / 2 ^ 53"
    using a addStep64_increases [of "timePassed m"] by blast+
  then show "\<exists>m' c. simulateWith xAt yAt addStep64 m = Inr (m', c) \<and>
              timePassed m' = roundFloat64 (timePassed m + step64) \<and>
              timePassed m < timePassed m' \<and>
              \<bar>timePassed m' - (timePassed m + step64)\<bar> \<le> (timePassed m + step64) / 2 ^ 53"
    using r by (auto simp add: addStep64_def)
qed

theorem tick_adds_float_step_witness:
  "Update c1_init (KeyMsg ''enter'') (\<lambda>i. 0) =
     Some (Inr (c1_init\<lparr>simulating := True, timePassed := 0\<rparr>, tick)) \<and>
   (\<exists>m' c. simulateWith newXPos newYPos addStep64 c7_tick2 = Inr (m', c) \<and>
      timePassed m' = roundFloat64 (timePassed c7_tick2 + step64) \<and>
      timePassed c7_tick2 < timePassed m')"
proof -
  have b: "inBounds c1_init" "inBounds c7_tick2"
    using c1_terrain_facts by (simp_all add: inBounds_def c1_init_def c7_tick2_def c7_flying_def)
  have "\<not> simulating c1_init" by (simp add: c1_init_def)
  moreover have "simulating c7_tick2 \<and> 0 \<le> timePassed c7_tick2 \<and> timePassed c7_tick2 + step64 < 2 ^ 49"
    by (simp add: c7_tick2_def c7_flying_def step64_value)
  ultimately show ?thesis
    using tick_adds_float_step [OF b(1), where rnd = "\<lambda>i. 0"] tick_adds_float_step [OF b(2), where xAt = newXPos and yAt = newYPos]
    by blast
qed

text \<open>
  C7 as stated fails: the increase is not always exactly the step. In the game of \<open>c1_rnd\<close>
  with the shot fired straight up, the flight is still on after two ticks, at elapsed time
  \<open>0.2\<close>, and the third tick sets elapsed time to \<open>0.30000000000000004\<close>: the increase is
  neither \<open>1/10\<close> nor the \<^verbatim>\<open>float64\<close> constant \<^verbatim>\<open>0.1\<close>.
\<close>

theorem third_tick_step_not_exact:
  "run c1_init c7_msgs c1_rnd = Some (Inr c7_flying) \<and> reachable c7_flying \<and>
   simulating c7_flying \<and> timePassed c7_flying = 0 \<and>
   ticksWith newXPos newYPos addStep64 2 c7_flying = Inr c7_tick2 \<and> simulating c7_tick2 \<and>
   ticksWith newXPos newYPos addStep64 3 c7_flying = Inr c7_tick3 \<and>
   timePassed c7_tick2 = 7205759403792794 / 2 ^ 55 \<and>
   timePassed c7_tick3 = 5404319552844596 / 2 ^ 54 \<and>
   timePassed c7_tick3 - timePassed c7_tick2 \<noteq> step64 \<and>
   timePassed c7_tick3 - timePassed c7_tick2 \<noteq> 1 / 10"
proof -
  have "reachable c1_init" using c1_valid c1_initial by (rule reachable.init)
  then have reach: "reachable c7_flying" using c1_valid c7_run by (rule reachable_run)
  have v: "timePassed c7_tick2 = 7205759403792794 / 2 ^ 55" "timePassed c7_tick3 = 5404319552844596 / 2 ^ 54"
      "simulating c7_flying" "timePassed c7_flying = 0" "simulating c7_tick2"
    by (simp_all add: c7_tick2_def c7_tick3_def c7_flying_def)
  have d: "timePassed c7_tick3 - timePassed c7_tick2 \<noteq> step64"
      "timePassed c7_tick3 - timePassed c7_tick2 \<noteq> 1 / 10"
    unfolding v step64_value by simp_all
  show ?thesis
    by (intro conjI) (fact c7_run reach v c7_ticks d)+
qed

text \<open>
  C8. While \<open>simulating\<close> is true, processing a key command (any key, quit included) returns
  a state with the same angle and power.
\<close>

theorem update_key_simulating_keeps_aim:
  assumes "simulating m"
  shows "\<exists>m' c. Update m (KeyMsg k) rnd = Some (Inr (m', c)) \<and> angle m' = angle m \<and> power_m m' = power_m m"
  using assms by (simp add: Update_def)

theorem update_key_simulating_keeps_aim_witness:
  "\<exists>m' c. Update (shot (flatWith 6 75 6) 20) (KeyMsg ''a'') (\<lambda>i. 0) = Some (Inr (m', c)) \<and>
     angle m' = 0 \<and> power_m m' = 20"
  using update_key_simulating_keeps_aim [of "shot (flatWith 6 75 6) 20" "''a''" "\<lambda>i. 0"]
  by (simp add: shot_def)

text \<open>
  C10. From a state whose terrain has at least 6 columns, the reset returns a state on a
  newly generated terrain whose ball row is the height of the old terrain at a column drawn
  in \<open>[1, 5]\<close>, and whose ball column is another draw in \<open>[1, 5]\<close>; the tank's column is a
  third draw, so the ball's column is the tank's only when these two draws agree. Every
  reachable state has 100 columns (\<open>reachable_onField\<close>).
\<close>

theorem resetGame_ball_position:
  assumes "validRnd rnd" "6 \<le> length (terrain m)"
  shows "\<exists>m'. resetGame m rnd = Some (Inr m') \<and>
     generateTerrain 100 6 rnd = Some (Inr (terrain m')) \<and>
     1 \<le> rnd 103 + 1 \<and> rnd 103 + 1 \<le> 5 \<and> ballPosY m' = terrain m ! nat (rnd 103 + 1) \<and>
     1 \<le> ballPosX m' \<and> ballPosX m' \<le> 5 \<and> ballPosX m' = rnd 102 + 1 \<and>
     tankPos m' = rnd 100 + 1 \<and> (ballPosX m' = tankPos m' \<longleftrightarrow> rnd 102 = rnd 100)"
proof -
  have r: "0 \<le> rnd 103" "rnd 103 < 5" "0 \<le> rnd 102" "rnd 102 < 5"
    using assms(1) by (simp_all add: validRnd_def)
  then have "index (terrain m) (rnd 103 + 1) = Inr (terrain m ! nat (rnd 103 + 1))"
    using assms(2) by (intro index_in) simp_all
  then show ?thesis
    using r by (simp add: resetGame_def generateTerrain_100_6)
qed

theorem resetGame_ball_position_witness:
  "\<exists>m'. resetGame c1_init (\<lambda>i. if i = 102 then 3 else 0) = Some (Inr m') \<and>
     ballPosX m' = 4 \<and> tankPos m' = 1 \<and> ballPosY m' = 6 \<and> ballPosX m' \<noteq> tankPos m'"
proof -
  have "validRnd (\<lambda>i. if i = 102 then 3 else 0)"
    by (auto simp add: validRnd_def)
  moreover have "6 \<le> length (terrain c1_init)"
    by (simp add: c1_init_def c1_terrain_facts)
  ultimately show ?thesis
    using resetGame_ball_position [of "\<lambda>i. if i = 102 then 3 else 0" c1_init] c1_terrain_facts
    by (auto simp add: c1_init_def)
qed

end
